theory Spec2Isabelle
  imports Complex_Main "HOL-Library.Word"
begin

section \<open>Data model shared by the cuBLAS and NCCL dispatch layers\<close>

text \<open>
  The two source files dispatch BLAS and collective operations on device buffers.
  Every operation is a host-side sequence of calls into collaborators that live
  outside these files (the context gate \<open>cuda_enter\<close>/\<open>cuda_exit\<close>, the hazard
  tracker \<open>cuda_wait\<close>/\<open>cuda_record\<close>, the allocator, cuBLAS, NCCL, the kernel
  launcher).  The embedding keeps the control flow of each C function and logs every
  such call, in program order, in a trace; what a collaborator answers at the
  \<open>n\<close>-th logged call is read from an environment, so that every error branch of the
  source is reachable in the model.

  \<open>size_t\<close> is a 64-bit word and \<open>int\<close> a 32-bit word; arithmetic wraps as in C.
\<close>

type_synonym size_t = "64 word"
type_synonym c_int = "32 word"

datatype cb_order = cb_c | cb_fortran
datatype cb_transpose = cb_no_trans | cb_trans | cb_conj_trans

datatype ga_status =
    GA_NO_ERROR | GA_MEMORY_ERROR | GA_VALUE_ERROR | GA_INVALID_ERROR
  | GA_UNSUPPORTED_ERROR | GA_DEVSUP_ERROR | GA_BLAS_ERROR | GA_COMM_ERROR
  | GA_XLARGE_ERROR | GA_OTHER_ERROR nat

datatype cublasStatus_t =
    CUBLAS_STATUS_SUCCESS | CUBLAS_STATUS_NOT_INITIALIZED | CUBLAS_STATUS_ALLOC_FAILED
  | CUBLAS_STATUS_INVALID_VALUE | CUBLAS_STATUS_ARCH_MISMATCH | CUBLAS_STATUS_MAPPING_ERROR
  | CUBLAS_STATUS_EXECUTION_FAILED | CUBLAS_STATUS_INTERNAL_ERROR
  | CUBLAS_STATUS_NOT_SUPPORTED | CUBLAS_STATUS_LICENSE_ERROR

datatype cublasPointerMode_t = CUBLAS_POINTER_MODE_HOST | CUBLAS_POINTER_MODE_DEVICE

datatype ncclResult_t = ncclSuccess | ncclFailure nat

datatype wait_mode = CUDA_WAIT_READ | CUDA_WAIT_WRITE | CUDA_WAIT_ALL

text \<open>A device buffer: its identity, the context that owns it and its size in bytes.\<close>

record gpudata =
  buf_id :: nat
  ctx :: nat
  sz :: size_t

text \<open>
  A device address is an allocation plus a byte offset: either a caller's buffer or a
  scratch allocation made by the operation itself (named by the trace position of
  its allocation).
\<close>

datatype devptr = BufPtr gpudata size_t | ScratchPtr nat size_t | NullPtr

datatype precision = Single | Double

datatype kernel =
    sgemvBH_N_a1_b1_small | sgemvBH_T_a1_b1_small
  | dgemvBH_N_a1_b1_small | dgemvBH_T_a1_b1_small
  | sgerBH_gen_small | dgerBH_gen_small

text \<open>Element type of the arrays and of the scalar in each kernel's source text.\<close>

fun kernel_precision :: "kernel \<Rightarrow> precision" where
  "kernel_precision sgemvBH_N_a1_b1_small = Single"
| "kernel_precision sgemvBH_T_a1_b1_small = Single"
| "kernel_precision dgemvBH_N_a1_b1_small = Double"
| "kernel_precision dgemvBH_T_a1_b1_small = Double"
| "kernel_precision sgerBH_gen_small = Single"
| "kernel_precision dgerBH_gen_small = Double"

datatype karg = ArgBuf nat | ArgSize size_t | ArgScalar real

datatype ncclRedOp_t = ncclSum | ncclProd | ncclMax | ncclMin | nccl_NUM_OPS
datatype ncclDataType_t =
    ncclChar | ncclInt | ncclHalf | ncclFloat | ncclDouble | ncclInt64 | ncclUint64
  | nccl_NUM_TYPES

datatype event =
    Enter | Exit
  | Wait gpudata wait_mode
  | Record gpudata wait_mode
  | Alloc nat size_t "devptr list"
  | AllocFail size_t
  | Write nat "devptr list"
  | Release nat
  | Gemm precision cb_transpose cb_transpose size_t size_t size_t devptr devptr devptr
  | GemmBatched precision cb_transpose cb_transpose size_t size_t size_t
      devptr devptr devptr size_t
  | KernelCall kernel "size_t list" "size_t list" "karg list"
  | GetPointerMode
  | SetPointerMode cublasPointerMode_t
  | Dot precision size_t devptr devptr devptr
  | CommUserRank
  | CommCount
  | NcclReduce devptr devptr c_int ncclDataType_t ncclRedOp_t c_int
  | NcclAllReduce devptr devptr c_int ncclDataType_t ncclRedOp_t
  | NcclReduceScatter devptr devptr c_int ncclDataType_t ncclRedOp_t
  | NcclBcast devptr c_int ncclDataType_t c_int
  | NcclAllGather devptr c_int ncclDataType_t devptr

text \<open>
  The host-visible state: the log of collaborator calls and the pointer mode of the
  cuBLAS handle.
\<close>

record cuda_state =
  trace :: "event list"
  pmode :: cublasPointerMode_t

text \<open>
  What the collaborators answer.  The index is the number of calls logged so far:
  \<open>ga_ret\<close> is the status of \<open>cuda_wait\<close>, \<open>cuda_record\<close>, \<open>gpudata_write\<close> or
  \<open>GpuKernel_call\<close>; \<open>alloc_ok\<close> says whether an allocation succeeds; \<open>err_code\<close>
  is the value read from \<open>ctx->err->code\<close>; \<open>cublas_ret\<close> and \<open>nccl_ret\<close> are the
  library statuses; \<open>int_ret\<close> is the integer a communicator query stores.
\<close>

record env =
  ga_ret :: "nat \<Rightarrow> ga_status"
  alloc_ok :: "nat \<Rightarrow> bool"
  err_code :: "nat \<Rightarrow> ga_status"
  cublas_ret :: "nat \<Rightarrow> cublasStatus_t"
  nccl_ret :: "nat \<Rightarrow> ncclResult_t"
  int_ret :: "nat \<Rightarrow> c_int"

text \<open>
  A call either returns a status or does not return at all: a failed \<open>assert\<close>, a
  read through a null pointer, a division by zero.
\<close>

datatype crash = AssertFail | NullDeref | DivByZero
datatype outcome = Ret ga_status | Crash crash

type_synonym result = "outcome \<times> cuda_state"

definition step_no :: "cuda_state \<Rightarrow> nat" where
  "step_no s = length (trace s)"

definition emit :: "event \<Rightarrow> cuda_state \<Rightarrow> cuda_state" where
  "emit e s = s\<lparr>trace := trace s @ [e]\<rparr>"

definition init_state :: "cublasPointerMode_t \<Rightarrow> cuda_state" where
  "init_state pm = \<lparr>trace = [], pmode = pm\<rparr>"

definition cuda_enter :: "cuda_state \<Rightarrow> cuda_state" where
  "cuda_enter s = emit Enter s"

definition cuda_exit :: "cuda_state \<Rightarrow> cuda_state" where
  "cuda_exit s = emit Exit s"

definition cuda_wait :: "env \<Rightarrow> gpudata \<Rightarrow> wait_mode \<Rightarrow> cuda_state \<Rightarrow> ga_status \<times> cuda_state" where
  "cuda_wait en b m s = (ga_ret en (step_no s), emit (Wait b m) s)"

definition cuda_record :: "env \<Rightarrow> gpudata \<Rightarrow> wait_mode \<Rightarrow> cuda_state \<Rightarrow> ga_status \<times> cuda_state" where
  "cuda_record en b m s = (ga_ret en (step_no s), emit (Record b m) s)"

text \<open>
  \<open>cuda_ops.buffer_alloc\<close> with \<open>GA_BUFFER_INIT\<close> and \<open>gpudata_alloc\<close>: a fresh
  scratch buffer, or \<open>NULL\<close>.
\<close>

definition buffer_alloc :: "env \<Rightarrow> size_t \<Rightarrow> devptr list \<Rightarrow> cuda_state \<Rightarrow> nat option \<times> cuda_state" where
  "buffer_alloc en n dat s =
     (if alloc_ok en (step_no s) then (Some (step_no s), emit (Alloc (step_no s) n dat) s)
      else (None, emit (AllocFail n) s))"

definition buffer_release :: "nat \<Rightarrow> cuda_state \<Rightarrow> cuda_state" where
  "buffer_release h s = emit (Release h) s"

definition gpudata_write :: "env \<Rightarrow> nat \<Rightarrow> devptr list \<Rightarrow> cuda_state \<Rightarrow> ga_status \<times> cuda_state" where
  "gpudata_write en h dat s = (ga_ret en (step_no s), emit (Write h dat) s)"

definition GpuKernel_call ::
  "env \<Rightarrow> kernel \<Rightarrow> size_t list \<Rightarrow> size_t list \<Rightarrow> karg list \<Rightarrow> cuda_state \<Rightarrow> ga_status \<times> cuda_state" where
  "GpuKernel_call en k gs ls args s = (ga_ret en (step_no s), emit (KernelCall k gs ls args) s)"

text \<open>
  Modelled from the spec: \<open>GA_CUDA_EXIT_ON_ERROR\<close> is defined in \<open>private_cuda.h\<close>,
  which is not among the sources.  It is taken to be what its name, the sibling macros
  \<open>GA_EXIT_ON_ERROR\<close> and \<open>CUBLAS_EXIT_ON_ERROR\<close> and the specification say: on a
  non-zero status leave the critical section and return that status.  The rest of the
  function is the continuation \<open>k\<close>.
\<close>

definition GA_CUDA_EXIT_ON_ERROR ::
  "(cuda_state \<Rightarrow> ga_status \<times> cuda_state) \<Rightarrow> (cuda_state \<Rightarrow> result) \<Rightarrow> cuda_state \<Rightarrow> result" where
  "GA_CUDA_EXIT_ON_ERROR cmd k s =
     (case cmd s of (err, s1) \<Rightarrow>
        if err \<noteq> GA_NO_ERROR then (Ret err, cuda_exit s1) else k s1)"

text \<open>\<open>for (i = 0; i < batchCount; i++)\<close>, the body given its continuation.\<close>

fun for_i :: "nat list \<Rightarrow> (nat \<Rightarrow> (cuda_state \<Rightarrow> result) \<Rightarrow> cuda_state \<Rightarrow> result)
    \<Rightarrow> (cuda_state \<Rightarrow> result) \<Rightarrow> cuda_state \<Rightarrow> result" where
  "for_i [] body k = k"
| "for_i (i # is) body k = body i (for_i is body k)"


section \<open>The cuBLAS dispatch layer\<close>

text \<open>
  Modelled from the spec: \<open>error_set\<close> and \<open>error_fmt\<close> are defined outside these
  files.  Every entry point returns a status drawn from the error-kind enumeration, so
  a call of either is taken to return the code it is given; the message is not kept.
  The enumeration of \<open>gpuarray/error.h\<close> is the datatype \<open>ga_status\<close>, with
  \<open>GA_OTHER_ERROR\<close> for the kinds these files do not name.

  \<open>ASSERT_BUF\<close> and \<open>ASSERT_COMM\<close> come from \<open>private.h\<close>; they are debugging
  checks of an object's tag and are not modelled.  \<open>alloca\<close> of the host-side
  pointer table is host memory and is not logged.  Pointers are 8 bytes wide.
\<close>

definition LARGE_VAL :: "size_t \<Rightarrow> bool" where
  "LARGE_VAL v = (v \<ge> 2147483647)"

definition error_cublas :: "cublasStatus_t \<Rightarrow> ga_status" where
  "error_cublas err = (if err = CUBLAS_STATUS_ARCH_MISMATCH then GA_DEVSUP_ERROR else GA_BLAS_ERROR)"

definition CUBLAS_EXIT_ON_ERROR ::
  "(cuda_state \<Rightarrow> cublasStatus_t \<times> cuda_state) \<Rightarrow> (cuda_state \<Rightarrow> result) \<Rightarrow> cuda_state \<Rightarrow> result" where
  "CUBLAS_EXIT_ON_ERROR cmd k s =
     (case cmd s of (err, s1) \<Rightarrow>
        if err \<noteq> CUBLAS_STATUS_SUCCESS then (Ret (error_cublas err), cuda_exit s1) else k s1)"

fun esize :: "precision \<Rightarrow> size_t" where
  "esize Single = 4"
| "esize Double = 8"

definition cublasGemm ::
  "env \<Rightarrow> precision \<Rightarrow> cb_transpose \<Rightarrow> cb_transpose \<Rightarrow> size_t \<Rightarrow> size_t \<Rightarrow> size_t
     \<Rightarrow> devptr \<Rightarrow> devptr \<Rightarrow> devptr \<Rightarrow> cuda_state \<Rightarrow> cublasStatus_t \<times> cuda_state" where
  "cublasGemm en p tA tB M N K a b c s =
     (cublas_ret en (step_no s), emit (Gemm p tA tB M N K a b c) s)"

definition cublasGemmBatched ::
  "env \<Rightarrow> precision \<Rightarrow> cb_transpose \<Rightarrow> cb_transpose \<Rightarrow> size_t \<Rightarrow> size_t \<Rightarrow> size_t
     \<Rightarrow> devptr \<Rightarrow> devptr \<Rightarrow> devptr \<Rightarrow> size_t \<Rightarrow> cuda_state \<Rightarrow> cublasStatus_t \<times> cuda_state" where
  "cublasGemmBatched en p tA tB M N K a b c n s =
     (cublas_ret en (step_no s), emit (GemmBatched p tA tB M N K a b c n) s)"

definition cublasGetPointerMode ::
  "env \<Rightarrow> cuda_state \<Rightarrow> (cublasStatus_t \<times> cublasPointerMode_t) \<times> cuda_state" where
  "cublasGetPointerMode en s = ((cublas_ret en (step_no s), pmode s), emit GetPointerMode s)"

definition cublasSetPointerMode ::
  "env \<Rightarrow> cublasPointerMode_t \<Rightarrow> cuda_state \<Rightarrow> cublasStatus_t \<times> cuda_state" where
  "cublasSetPointerMode en m s =
     (let r = cublas_ret en (step_no s); s1 = emit (SetPointerMode m) s
      in (r, if r = CUBLAS_STATUS_SUCCESS then s1\<lparr>pmode := m\<rparr> else s1))"

definition cublasDot ::
  "env \<Rightarrow> precision \<Rightarrow> size_t \<Rightarrow> devptr \<Rightarrow> devptr \<Rightarrow> devptr \<Rightarrow> cuda_state
     \<Rightarrow> cublasStatus_t \<times> cuda_state" where
  "cublasDot en p N x y z s = (cublas_ret en (step_no s), emit (Dot p N x y z) s)"

subsection \<open>Pointer-batched gemm\<close>

text \<open>
  \<open>sgemmBatch\<close> and \<open>dgemmBatch\<close> are the same text up to the element type; the
  element type is the parameter \<open>p\<close>.  The arrays \<open>A\<close>, \<open>offA\<close>, ... are functions of
  the item index.
\<close>

definition sizes_overflow :: "size_t \<Rightarrow> size_t \<Rightarrow> size_t \<Rightarrow> size_t \<Rightarrow> size_t \<Rightarrow> size_t \<Rightarrow> bool" where
  "sizes_overflow M N K lda ldb ldc =
     (LARGE_VAL M \<or> LARGE_VAL N \<or> LARGE_VAL K \<or>
      LARGE_VAL lda \<or> LARGE_VAL ldb \<or> LARGE_VAL ldc \<or>
      LARGE_VAL (M * N) \<or> LARGE_VAL (M * K) \<or> LARGE_VAL (K * N))"

text \<open>
  The second branch from the scratch allocation on (after its wait loop): allocate,
  write the pointer table, one batched call, release, record.  \<open>pA\<close>, \<open>pB\<close>, \<open>pC\<close>
  give the device address of each item's operand.
\<close>

definition gemmBatch_batched ::
  "precision \<Rightarrow> env \<Rightarrow> cb_transpose \<Rightarrow> cb_transpose \<Rightarrow> size_t \<Rightarrow> size_t \<Rightarrow> size_t
     \<Rightarrow> (nat \<Rightarrow> gpudata) \<Rightarrow> (nat \<Rightarrow> gpudata) \<Rightarrow> (nat \<Rightarrow> gpudata)
     \<Rightarrow> (nat \<Rightarrow> devptr) \<Rightarrow> (nat \<Rightarrow> devptr) \<Rightarrow> (nat \<Rightarrow> devptr)
     \<Rightarrow> size_t \<Rightarrow> cuda_state \<Rightarrow> result" where
  "gemmBatch_batched p en tA tB M N K A B C pA pB pC batchCount s =
     (let idx = [0..<unat batchCount];
          T_l = map pA idx @ map pB idx @ map pC idx
      in
      case buffer_alloc en (8 * batchCount * 3) [] s of
        (None, s) \<Rightarrow> let s = cuda_exit s in (Ret (err_code en (step_no s)), s)
      | (Some Ta, s) \<Rightarrow>
          let Aa = ScratchPtr Ta 0;
              Ba = ScratchPtr Ta (batchCount * 8);
              Ca = ScratchPtr Ta (batchCount * 8 * 2)
          in
          case gpudata_write en Ta T_l s of (werr, s) \<Rightarrow>
          if werr \<noteq> GA_NO_ERROR then
            let s = buffer_release Ta s; s = cuda_exit s
            in (Ret (err_code en (step_no s)), s)
          else
            case cublasGemmBatched en p tA tB M N K Aa Ba Ca batchCount s of (err, s) \<Rightarrow>
            let s = buffer_release Ta s in
            if err \<noteq> CUBLAS_STATUS_SUCCESS then (Ret (error_cublas err), cuda_exit s)
            else
              for_i idx
                (\<lambda>i k.
                   GA_CUDA_EXIT_ON_ERROR (cuda_record en (A i) CUDA_WAIT_READ)
                  (GA_CUDA_EXIT_ON_ERROR (cuda_record en (B i) CUDA_WAIT_READ)
                  (GA_CUDA_EXIT_ON_ERROR (cuda_record en (C i) CUDA_WAIT_ALL) k)))
                (\<lambda>s. (Ret GA_NO_ERROR, cuda_exit s)) s)"

definition gemmBatch ::
  "precision \<Rightarrow> env \<Rightarrow> cb_order \<Rightarrow> cb_transpose \<Rightarrow> cb_transpose
     \<Rightarrow> size_t \<Rightarrow> size_t \<Rightarrow> size_t
     \<Rightarrow> (nat \<Rightarrow> gpudata) \<Rightarrow> (nat \<Rightarrow> size_t) \<Rightarrow> size_t
     \<Rightarrow> (nat \<Rightarrow> gpudata) \<Rightarrow> (nat \<Rightarrow> size_t) \<Rightarrow> size_t
     \<Rightarrow> (nat \<Rightarrow> gpudata) \<Rightarrow> (nat \<Rightarrow> size_t) \<Rightarrow> size_t
     \<Rightarrow> size_t \<Rightarrow> cuda_state \<Rightarrow> result" where
  "gemmBatch p en order transA transB M N K A offA lda B offB ldb C offC ldc batchCount s =
     (let threshold = (650 :: size_t) in
      if sizes_overflow M N K lda ldb ldc then (Ret GA_XLARGE_ERROR, s)
      else
        let s = cuda_enter s;
            sw = (order = cb_c);
            M1 = (if sw then N else M); N1 = (if sw then M else N);
            A1 = (if sw then B else A); B1 = (if sw then A else B);
            lda1 = (if sw then ldb else lda); ldb1 = (if sw then lda else ldb);
            tA = (if sw then transB else transA); tB = (if sw then transA else transB);
            offA1 = (if sw then offB else offA); offB1 = (if sw then offA else offB);
            idx = [0..<unat batchCount];
            pA = (\<lambda>i. BufPtr (A1 i) (esize p * offA1 i));
            pB = (\<lambda>i. BufPtr (B1 i) (esize p * offB1 i));
            pC = (\<lambda>i. BufPtr (C i) (esize p * offC i))
        in
        if M1 * N1 * K > threshold * threshold * threshold then
          for_i idx
            (\<lambda>i k.
               GA_CUDA_EXIT_ON_ERROR (cuda_wait en (A1 i) CUDA_WAIT_READ)
              (GA_CUDA_EXIT_ON_ERROR (cuda_wait en (B1 i) CUDA_WAIT_READ)
              (GA_CUDA_EXIT_ON_ERROR (cuda_wait en (C i) CUDA_WAIT_ALL)
              (CUBLAS_EXIT_ON_ERROR (cublasGemm en p tA tB M1 N1 K (pA i) (pB i) (pC i))
              (GA_CUDA_EXIT_ON_ERROR (cuda_record en (A1 i) CUDA_WAIT_READ)
              (GA_CUDA_EXIT_ON_ERROR (cuda_record en (B1 i) CUDA_WAIT_READ)
              (GA_CUDA_EXIT_ON_ERROR (cuda_record en (C i) CUDA_WAIT_ALL) k)))))))
            (\<lambda>s. (Ret GA_NO_ERROR, cuda_exit s)) s
        else
          for_i idx
            (\<lambda>i k.
               GA_CUDA_EXIT_ON_ERROR (cuda_wait en (A1 i) CUDA_WAIT_READ)
              (GA_CUDA_EXIT_ON_ERROR (cuda_wait en (B1 i) CUDA_WAIT_READ)
              (GA_CUDA_EXIT_ON_ERROR (cuda_wait en (C i) CUDA_WAIT_ALL) k)))
            (gemmBatch_batched p en tA tB M1 N1 K A1 B1 C pA pB pC batchCount) s)"

definition sgemmBatch where "sgemmBatch = gemmBatch Single"
definition dgemmBatch where "dgemmBatch = gemmBatch Double"

subsection \<open>Batched gemv on the custom kernels\<close>

text \<open>
  Block and grid shape, computed before the row/column normalisation.  With
  \<open>batchCount = 0\<close> and \<open>M < 512\<close> the second block dimension is 0 and the grid
  computation divides by it: \<open>None\<close>.
\<close>

definition gemvBatch_grid :: "size_t \<Rightarrow> size_t \<Rightarrow> (size_t list \<times> size_t list) option" where
  "gemvBatch_grid M batchCount =
     (let ls0 = (if M < 512 then 32 else 512);
          ls1 = (if M < 512 then (if batchCount > 16 then 16 else batchCount) else 1)
      in if ls1 = 0 then None
         else
           let gs0 = (M + ls0 - 1) div ls0;
               gs1 = (batchCount + ls1 - 1) div ls1;
               gs1 = (if gs0 * gs1 div 65535 \<noteq> 0 then 65535 div gs0 else gs1)
           in Some ([ls0, ls1], [gs0, gs1]))"

text \<open>
  \<open>sgemvBatch\<close> and \<open>dgemvBatch\<close> are the same text up to the element type and the
  two kernels they launch (\<open>kN\<close> for \<open>cb_no_trans\<close>, \<open>kT\<close> otherwise).
\<close>

text \<open>
  The part from the first \<open>buffer_alloc\<close> on (after the wait loop): three scratch
  buffers initialised with the pointer tables, the kernel launch, the releases, the
  record loop.
\<close>

definition gemvBatch_launch ::
  "env \<Rightarrow> kernel \<Rightarrow> size_t list \<Rightarrow> size_t list \<Rightarrow> size_t \<Rightarrow> size_t
     \<Rightarrow> (nat \<Rightarrow> gpudata) \<Rightarrow> (nat \<Rightarrow> size_t) \<Rightarrow> size_t
     \<Rightarrow> (nat \<Rightarrow> gpudata) \<Rightarrow> (nat \<Rightarrow> size_t) \<Rightarrow> size_t
     \<Rightarrow> (nat \<Rightarrow> gpudata) \<Rightarrow> (nat \<Rightarrow> size_t) \<Rightarrow> size_t
     \<Rightarrow> size_t \<Rightarrow> cuda_state \<Rightarrow> result" where
  "gemvBatch_launch en kern gs ls M N A offA lda x offX incX y offY incY batchCount s =
     (let idx = [0..<unat batchCount];
          A_l = map (\<lambda>i. BufPtr (A i) (offA i)) idx;
          x_l = map (\<lambda>i. BufPtr (x i) (offX i)) idx;
          y_l = map (\<lambda>i. BufPtr (y i) (offY i)) idx
      in
      case buffer_alloc en (8 * batchCount) A_l s of
        (None, s) \<Rightarrow> (Ret (err_code en (step_no s)), s)
      | (Some Aa, s) \<Rightarrow>
      case buffer_alloc en (8 * batchCount) x_l s of
        (None, s) \<Rightarrow>
          let s = buffer_release Aa s in (Ret (err_code en (step_no s)), s)
      | (Some xa, s) \<Rightarrow>
      case buffer_alloc en (8 * batchCount) y_l s of
        (None, s) \<Rightarrow>
          let s = buffer_release Aa s; s = buffer_release xa s
          in (Ret (err_code en (step_no s)), s)
      | (Some ya, s) \<Rightarrow>
      let args = [ArgBuf Aa, ArgSize lda, ArgBuf xa, ArgSize incX, ArgBuf ya,
                  ArgSize incY, ArgSize batchCount, ArgSize M, ArgSize N]
      in
      case GpuKernel_call en kern gs ls args s of (err, s) \<Rightarrow>
      let s = buffer_release Aa s; s = buffer_release xa s; s = buffer_release ya s
      in
      if err \<noteq> GA_NO_ERROR then (Ret err, cuda_exit s)
      else
        for_i idx
          (\<lambda>i k.
             GA_CUDA_EXIT_ON_ERROR (cuda_record en (A i) CUDA_WAIT_READ)
            (GA_CUDA_EXIT_ON_ERROR (cuda_record en (x i) CUDA_WAIT_READ)
            (GA_CUDA_EXIT_ON_ERROR (cuda_record en (y i) CUDA_WAIT_ALL) k)))
          (\<lambda>s. (Ret GA_NO_ERROR, cuda_exit s)) s)"

definition gemvBatch ::
  "kernel \<Rightarrow> kernel \<Rightarrow> env \<Rightarrow> cb_order \<Rightarrow> cb_transpose \<Rightarrow> size_t \<Rightarrow> size_t \<Rightarrow> real
     \<Rightarrow> (nat \<Rightarrow> gpudata) \<Rightarrow> (nat \<Rightarrow> size_t) \<Rightarrow> size_t
     \<Rightarrow> (nat \<Rightarrow> gpudata) \<Rightarrow> (nat \<Rightarrow> size_t) \<Rightarrow> size_t
     \<Rightarrow> real \<Rightarrow> (nat \<Rightarrow> gpudata) \<Rightarrow> (nat \<Rightarrow> size_t) \<Rightarrow> size_t
     \<Rightarrow> size_t \<Rightarrow> c_int \<Rightarrow> cuda_state \<Rightarrow> result" where
  "gemvBatch kN kT en order transA M N alpha A offA lda x offX incX beta y offY incY
       batchCount flags s =
     (if flags \<noteq> 0 then (Ret GA_INVALID_ERROR, s)
      else if alpha \<noteq> 1 \<or> beta \<noteq> 1 then (Ret GA_UNSUPPORTED_ERROR, s)
      else
        case gemvBatch_grid M batchCount of
          None \<Rightarrow> (Crash DivByZero, s)
        | Some (ls, gs) \<Rightarrow>
        let sw = (order = cb_c);
            M1 = (if sw then N else M); N1 = (if sw then M else N);
            tA = (if sw then (if transA = cb_no_trans then cb_trans else cb_no_trans)
                  else transA);
            s = cuda_enter s
        in
        for_i [0..<unat batchCount]
          (\<lambda>i k.
             GA_CUDA_EXIT_ON_ERROR (cuda_wait en (A i) CUDA_WAIT_READ)
            (GA_CUDA_EXIT_ON_ERROR (cuda_wait en (x i) CUDA_WAIT_READ)
            (GA_CUDA_EXIT_ON_ERROR (cuda_wait en (y i) CUDA_WAIT_ALL) k)))
          (gemvBatch_launch en (if tA = cb_no_trans then kN else kT) gs ls M1 N1
             A offA lda x offX incX y offY incY batchCount) s)"

definition sgemvBatch where
  "sgemvBatch = gemvBatch sgemvBH_N_a1_b1_small sgemvBH_T_a1_b1_small"
definition dgemvBatch where
  "dgemvBatch = gemvBatch dgemvBH_N_a1_b1_small dgemvBH_T_a1_b1_small"


subsection \<open>Batched ger on the custom kernel\<close>

text \<open>
  Block and grid shape, computed before the row/column normalisation; \<open>None\<close> is the
  "Input too large" return.  The divisor \<open>gs0 * gs1\<close> is non-zero where it is used,
  since \<open>gs0 * gs1 * gs2 > 65535\<close> there.
\<close>

definition gerBatch_grid ::
  "size_t \<Rightarrow> size_t \<Rightarrow> size_t \<Rightarrow> size_t \<Rightarrow> (size_t list \<times> size_t list) option" where
  "gerBatch_grid M N incX batchCount =
     (let ls0 = M; ls1 = N; gs0 = (1 :: size_t); gs1 = (1 :: size_t); gs2 = batchCount in
      let (ls0, ls1, gs0, gs1) =
        (if incX = 1 then
           let (gs0, ls0) = (if ls0 > 32 then ((ls0 + 31) div 32, 32) else (gs0, ls0));
               (gs1, ls1) = (if ls0 * ls1 > 512 then ((ls1 + 15) div 16, 16) else (gs1, ls1))
           in (ls0, ls1, gs0, gs1)
         else
           let (gs1, ls1) = (if ls1 > 32 then ((ls1 + 31) div 32, 32) else (gs1, ls1));
               (gs0, ls0) = (if ls0 * ls1 > 512 then ((ls0 + 15) div 16, 16) else (gs0, ls0))
           in (ls0, ls1, gs0, gs1))
      in
      if gs0 * gs1 * gs2 > 65535 then
        if gs0 * gs1 > 65535 then None
        else Some ([ls0, ls1, 1], [gs0, gs1, 65535 div (gs0 * gs1)])
      else Some ([ls0, ls1, 1], [gs0, gs1, gs2]))"

text \<open>
  \<open>sgerBatch\<close> and \<open>dgerBatch\<close> are the same text up to the element type; the
  kernel each of them launches is the parameter \<open>kern\<close>.  First the part from the
  first \<open>buffer_alloc\<close> on.
\<close>

definition gerBatch_launch ::
  "env \<Rightarrow> kernel \<Rightarrow> size_t list \<Rightarrow> size_t list \<Rightarrow> size_t \<Rightarrow> size_t \<Rightarrow> real
     \<Rightarrow> (nat \<Rightarrow> gpudata) \<Rightarrow> (nat \<Rightarrow> size_t) \<Rightarrow> size_t
     \<Rightarrow> (nat \<Rightarrow> gpudata) \<Rightarrow> (nat \<Rightarrow> size_t) \<Rightarrow> size_t
     \<Rightarrow> (nat \<Rightarrow> gpudata) \<Rightarrow> (nat \<Rightarrow> size_t) \<Rightarrow> size_t
     \<Rightarrow> size_t \<Rightarrow> cuda_state \<Rightarrow> result" where
  "gerBatch_launch en kern gs ls M N alpha x offX incX y offY incY A offA lda batchCount s =
     (let idx = [0..<unat batchCount];
          A_l = map (\<lambda>i. BufPtr (A i) (offA i)) idx;
          x_l = map (\<lambda>i. BufPtr (x i) (offX i)) idx;
          y_l = map (\<lambda>i. BufPtr (y i) (offY i)) idx
      in
      case buffer_alloc en (8 * batchCount) A_l s of
        (None, s) \<Rightarrow> (Ret (err_code en (step_no s)), s)
      | (Some Aa, s) \<Rightarrow>
      case buffer_alloc en (8 * batchCount) x_l s of
        (None, s) \<Rightarrow>
          let s = buffer_release Aa s in (Ret (err_code en (step_no s)), s)
      | (Some xa, s) \<Rightarrow>
      case buffer_alloc en (8 * batchCount) y_l s of
        (None, s) \<Rightarrow>
          let s = buffer_release Aa s; s = buffer_release xa s
          in (Ret (err_code en (step_no s)), s)
      | (Some ya, s) \<Rightarrow>
      let args = [ArgBuf xa, ArgSize incX, ArgBuf ya, ArgSize incY, ArgScalar alpha,
                  ArgBuf Aa, ArgSize lda, ArgSize batchCount, ArgSize M, ArgSize N]
      in
      case GpuKernel_call en kern gs ls args s of (err, s) \<Rightarrow>
      let s = buffer_release Aa s; s = buffer_release xa s; s = buffer_release ya s
      in
      if err \<noteq> GA_NO_ERROR then (Ret err, cuda_exit s)
      else
        for_i idx
          (\<lambda>i k.
             GA_CUDA_EXIT_ON_ERROR (cuda_record en (A i) CUDA_WAIT_READ)
            (GA_CUDA_EXIT_ON_ERROR (cuda_record en (x i) CUDA_WAIT_READ)
            (GA_CUDA_EXIT_ON_ERROR (cuda_record en (y i) CUDA_WAIT_ALL) k)))
          (\<lambda>s. (Ret GA_NO_ERROR, cuda_exit s)) s)"

definition gerBatch ::
  "kernel \<Rightarrow> env \<Rightarrow> cb_order \<Rightarrow> size_t \<Rightarrow> size_t \<Rightarrow> real
     \<Rightarrow> (nat \<Rightarrow> gpudata) \<Rightarrow> (nat \<Rightarrow> size_t) \<Rightarrow> size_t
     \<Rightarrow> (nat \<Rightarrow> gpudata) \<Rightarrow> (nat \<Rightarrow> size_t) \<Rightarrow> size_t
     \<Rightarrow> (nat \<Rightarrow> gpudata) \<Rightarrow> (nat \<Rightarrow> size_t) \<Rightarrow> size_t
     \<Rightarrow> size_t \<Rightarrow> c_int \<Rightarrow> cuda_state \<Rightarrow> result" where
  "gerBatch kern en order M N alpha x offX incX y offY incY A offA lda batchCount flags s =
     (if flags \<noteq> 0 then (Ret GA_INVALID_ERROR, s)
      else
        case gerBatch_grid M N incX batchCount of
          None \<Rightarrow> (Ret GA_VALUE_ERROR, s)
        | Some (ls, gs) \<Rightarrow>
        let sw = (order = cb_c);
            M1 = (if sw then N else M); N1 = (if sw then M else N);
            offX1 = (if sw then offY else offX); offY1 = (if sw then offX else offY);
            incX1 = (if sw then incY else incX); incY1 = (if sw then incX else incY);
            x1 = (if sw then y else x); y1 = (if sw then x else y);
            s = cuda_enter s
        in
        for_i [0..<unat batchCount]
          (\<lambda>i k.
             GA_CUDA_EXIT_ON_ERROR (cuda_wait en (A i) CUDA_WAIT_ALL)
            (GA_CUDA_EXIT_ON_ERROR (cuda_wait en (x1 i) CUDA_WAIT_READ)
            (GA_CUDA_EXIT_ON_ERROR (cuda_wait en (y1 i) CUDA_WAIT_READ) k)))
          (gerBatch_launch en kern gs ls M1 N1 alpha x1 offX1 incX1 y1 offY1 incY1
             A offA lda batchCount) s)"

text \<open>Both functions launch \<open>sgerBH_gen_small\<close>, as the source has it.\<close>

definition sgerBatch where "sgerBatch = gerBatch sgerBH_gen_small"
definition dgerBatch where "dgerBatch = gerBatch sgerBH_gen_small"

subsection \<open>Dot product\<close>

text \<open>\<open>sdot\<close> and \<open>ddot\<close> are the same text up to the element type.\<close>

definition dot ::
  "precision \<Rightarrow> env \<Rightarrow> size_t \<Rightarrow> gpudata \<Rightarrow> size_t \<Rightarrow> size_t \<Rightarrow> gpudata \<Rightarrow> size_t \<Rightarrow> size_t
     \<Rightarrow> gpudata \<Rightarrow> size_t \<Rightarrow> cuda_state \<Rightarrow> result" where
  "dot p en N X offX incX Y offY incY Z offZ s =
     (if LARGE_VAL N then (Ret GA_XLARGE_ERROR, s)
      else
        let s = cuda_enter s in
         (GA_CUDA_EXIT_ON_ERROR (cuda_wait en X CUDA_WAIT_READ)
         (GA_CUDA_EXIT_ON_ERROR (cuda_wait en Y CUDA_WAIT_READ)
         (GA_CUDA_EXIT_ON_ERROR (cuda_wait en Z CUDA_WAIT_WRITE)
         (\<lambda>s. case cublasGetPointerMode en s of ((err, saved), s) \<Rightarrow>
            if err \<noteq> CUBLAS_STATUS_SUCCESS then (Ret (error_cublas err), cuda_exit s)
            else
             (CUBLAS_EXIT_ON_ERROR (cublasSetPointerMode en CUBLAS_POINTER_MODE_DEVICE)
             (CUBLAS_EXIT_ON_ERROR
                (cublasDot en p N (BufPtr X (esize p * offX)) (BufPtr Y (esize p * offY))
                   (BufPtr Z (esize p * offZ)))
             (CUBLAS_EXIT_ON_ERROR (cublasSetPointerMode en saved)
             (GA_CUDA_EXIT_ON_ERROR (cuda_record en X CUDA_WAIT_READ)
             (GA_CUDA_EXIT_ON_ERROR (cuda_record en Y CUDA_WAIT_READ)
             (GA_CUDA_EXIT_ON_ERROR (cuda_record en Z CUDA_WAIT_WRITE)
             (\<lambda>s. (Ret GA_NO_ERROR, cuda_exit s)))))))) s)))) s)"

definition sdot where "sdot = dot Single"
definition ddot where "ddot = dot Double"


section \<open>The NCCL collectives layer\<close>

text \<open>
  A communicator is bound to one context.  Element type codes are the closed
  enumeration of \<open>gpuarray/types.h\<close>; the seven codes the switch of
  \<open>convert_data_type\<close> names are kept apart from all the others.  Reduce operation
  codes are \<open>int\<close>s with the values of \<open>enum _gpucomm_reduce_ops\<close>.
\<close>

record gpucomm =
  comm_ctx :: nat

datatype ga_typecode =
    GA_BYTE | GA_INT | GA_HALF | GA_FLOAT | GA_DOUBLE | GA_LONG | GA_ULONG
  | GA_TYPE_OTHER nat

definition GA_SUM :: c_int where "GA_SUM = 0"
definition GA_PROD :: c_int where "GA_PROD = 1"
definition GA_MAX :: c_int where "GA_MAX = 2"
definition GA_MIN :: c_int where "GA_MIN = 3"

text \<open>
  What the build and the headers outside these files fix: whether \<open>NDEBUG\<close> is
  defined (then \<open>assert\<close> expands to nothing), whether \<open>CUDA_HAS_HALF\<close> is defined,
  and the byte width \<open>gpuarray_get_elsize\<close> gives each type code.
\<close>

record build =
  ndebug :: bool
  cuda_has_half :: bool
  gpuarray_get_elsize :: "ga_typecode \<Rightarrow> size_t"

text \<open>
  \<open>NCCL_CHKFAIL\<close> around a communicator query: \<open>GA_COMM_ERROR\<close> on failure,
  otherwise the integer the query stored.  The message kept in \<open>comm_error\<close> is not
  modelled.
\<close>

definition get_count :: "env \<Rightarrow> gpucomm \<Rightarrow> cuda_state \<Rightarrow> (ga_status \<times> c_int) \<times> cuda_state" where
  "get_count en comm s =
     (if nccl_ret en (step_no s) \<noteq> ncclSuccess then ((GA_COMM_ERROR, 0), emit CommCount s)
      else ((GA_NO_ERROR, int_ret en (step_no s)), emit CommCount s))"

definition get_rank :: "env \<Rightarrow> gpucomm \<Rightarrow> cuda_state \<Rightarrow> (ga_status \<times> c_int) \<times> cuda_state" where
  "get_rank en comm s =
     (if nccl_ret en (step_no s) \<noteq> ncclSuccess then ((GA_COMM_ERROR, 0), emit CommUserRank s)
      else ((GA_NO_ERROR, int_ret en (step_no s)), emit CommUserRank s))"

definition convert_reduce_op :: "c_int \<Rightarrow> ncclRedOp_t" where
  "convert_reduce_op opcode =
     (if opcode = GA_SUM then ncclSum
      else if opcode = GA_PROD then ncclProd
      else if opcode = GA_MAX then ncclMax
      else if opcode = GA_MIN then ncclMin
      else nccl_NUM_OPS)"

fun convert_data_type :: "build \<Rightarrow> ga_typecode \<Rightarrow> ncclDataType_t" where
  "convert_data_type cfg GA_BYTE = ncclChar"
| "convert_data_type cfg GA_INT = ncclInt"
| "convert_data_type cfg GA_HALF = (if cuda_has_half cfg then ncclHalf else nccl_NUM_TYPES)"
| "convert_data_type cfg GA_FLOAT = ncclFloat"
| "convert_data_type cfg GA_DOUBLE = ncclDouble"
| "convert_data_type cfg GA_LONG = ncclInt64"
| "convert_data_type cfg GA_ULONG = ncclUint64"
| "convert_data_type cfg (GA_TYPE_OTHER n) = nccl_NUM_TYPES"

text \<open>
  \<open>check_restrictions\<close>.  \<open>dest\<close> may be \<open>NULL\<close> (\<open>None\<close>); \<open>want_dt\<close> and
  \<open>want_op\<close> say whether the out-pointers \<open>datatype\<close> and \<open>op\<close> are non-null, and
  an out-value that is not written is returned as the \<open>NUM\<close> sentinel, which no
  caller reads.  \<open>count\<close> is an \<open>int\<close> and is converted to \<open>size_t\<close> by the
  multiplication; the subtractions are unsigned.  The second \<open>assert\<close> joins its two
  tests with the bitwise \<open>&\<close>, which evaluates both operands, so \<open>dest->sz\<close> is read
  even when \<open>dest\<close> is \<open>NULL\<close>.
\<close>

definition check_restrictions ::
  "build \<Rightarrow> gpudata \<Rightarrow> size_t \<Rightarrow> gpudata option \<Rightarrow> size_t \<Rightarrow> c_int \<Rightarrow> ga_typecode \<Rightarrow> c_int
     \<Rightarrow> gpucomm \<Rightarrow> bool \<Rightarrow> bool \<Rightarrow> outcome \<times> ncclDataType_t \<times> ncclRedOp_t" where
  "check_restrictions cfg src offsrc dest offdest count typecode opcode comm want_dt want_op =
     (let datatype = (if want_dt then convert_data_type cfg typecode else nccl_NUM_TYPES);
          op = (if want_op then convert_reduce_op opcode else nccl_NUM_OPS);
          op_size = scast count * gpuarray_get_elsize cfg typecode
      in
      if ctx src \<noteq> comm_ctx comm then (Ret GA_VALUE_ERROR, datatype, op)
      else if (case dest of None \<Rightarrow> False | Some d \<Rightarrow> ctx d \<noteq> comm_ctx comm)
        then (Ret GA_VALUE_ERROR, datatype, op)
      else if want_dt \<and> datatype = nccl_NUM_TYPES then (Ret GA_VALUE_ERROR, datatype, op)
      else if want_op \<and> op = nccl_NUM_OPS then (Ret GA_VALUE_ERROR, datatype, op)
      else if sz src - offsrc < op_size then (Ret GA_VALUE_ERROR, datatype, op)
      else if (case dest of None \<Rightarrow> False | Some d \<Rightarrow> sz d - offdest < op_size)
        then (Ret GA_VALUE_ERROR, datatype, op)
      else if \<not> ndebug cfg \<and> offsrc > sz src then (Crash AssertFail, datatype, op)
      else if \<not> ndebug cfg then
        (case dest of
           None \<Rightarrow> (Crash NullDeref, datatype, op)
         | Some d \<Rightarrow>
             if offdest > sz d then (Crash AssertFail, datatype, op)
             else (Ret GA_NO_ERROR, datatype, op))
      else (Ret GA_NO_ERROR, datatype, op))"

text \<open>\<open>GA_CHECK\<close>: return a non-zero status at once, outside the critical section.\<close>

definition GA_CHECK :: "outcome \<Rightarrow> cuda_state \<Rightarrow> (cuda_state \<Rightarrow> result) \<Rightarrow> result" where
  "GA_CHECK r s k = (if r \<noteq> Ret GA_NO_ERROR then (r, s) else k s)"

definition NCCL_EXIT_ON_ERROR ::
  "env \<Rightarrow> event \<Rightarrow> (cuda_state \<Rightarrow> result) \<Rightarrow> cuda_state \<Rightarrow> result" where
  "NCCL_EXIT_ON_ERROR en call k s =
     (let nccl_err = nccl_ret en (step_no s); s1 = emit call s
      in if nccl_err \<noteq> ncclSuccess then (Ret GA_COMM_ERROR, cuda_exit s1) else k s1)"

definition reduce ::
  "build \<Rightarrow> env \<Rightarrow> gpudata \<Rightarrow> size_t \<Rightarrow> gpudata option \<Rightarrow> size_t \<Rightarrow> c_int \<Rightarrow> ga_typecode \<Rightarrow> c_int
     \<Rightarrow> c_int \<Rightarrow> gpucomm \<Rightarrow> cuda_state \<Rightarrow> result" where
  "reduce cfg en src offsrc dest offdest count typecode opcode rootr comm s =
     (case get_rank en comm s of ((e, rank), s) \<Rightarrow>
      GA_CHECK (Ret e) s (\<lambda>s.
      let dst = (if rank = rootr then dest else None) in
      case check_restrictions cfg src offsrc dst offdest count typecode opcode comm True True of
        (r, datatype, op) \<Rightarrow>
      GA_CHECK r s (\<lambda>s.
      let s = cuda_enter s in
      GA_CUDA_EXIT_ON_ERROR (cuda_wait en src CUDA_WAIT_READ)
       (\<lambda>s.
          if rank = rootr then
            (case dest of
               None \<Rightarrow> (Crash NullDeref, s)
             | Some d \<Rightarrow>
                GA_CUDA_EXIT_ON_ERROR (cuda_wait en d CUDA_WAIT_WRITE)
               (NCCL_EXIT_ON_ERROR en
                  (NcclReduce (BufPtr src offsrc) (BufPtr d offdest) count datatype op rootr)
               (GA_CUDA_EXIT_ON_ERROR (cuda_record en src CUDA_WAIT_READ)
               (GA_CUDA_EXIT_ON_ERROR (cuda_record en d CUDA_WAIT_WRITE)
               (\<lambda>s. (Ret GA_NO_ERROR, cuda_exit s))))) s)
          else
             (NCCL_EXIT_ON_ERROR en
                (NcclReduce (BufPtr src offsrc) NullPtr count datatype op rootr)
             (GA_CUDA_EXIT_ON_ERROR (cuda_record en src CUDA_WAIT_READ)
             (\<lambda>s. (Ret GA_NO_ERROR, cuda_exit s)))) s) s)))"

definition all_reduce ::
  "build \<Rightarrow> env \<Rightarrow> gpudata \<Rightarrow> size_t \<Rightarrow> gpudata \<Rightarrow> size_t \<Rightarrow> c_int \<Rightarrow> ga_typecode \<Rightarrow> c_int
     \<Rightarrow> gpucomm \<Rightarrow> cuda_state \<Rightarrow> result" where
  "all_reduce cfg en src offsrc dest offdest count typecode opcode comm s =
     (case check_restrictions cfg src offsrc (Some dest) offdest count typecode opcode comm
             True True of
        (r, datatype, op) \<Rightarrow>
      GA_CHECK r s (\<lambda>s.
      let s = cuda_enter s in
       (GA_CUDA_EXIT_ON_ERROR (cuda_wait en src CUDA_WAIT_READ)
       (GA_CUDA_EXIT_ON_ERROR (cuda_wait en dest CUDA_WAIT_WRITE)
       (NCCL_EXIT_ON_ERROR en
          (NcclAllReduce (BufPtr src offsrc) (BufPtr dest offdest) count datatype op)
       (GA_CUDA_EXIT_ON_ERROR (cuda_record en src CUDA_WAIT_READ)
       (GA_CUDA_EXIT_ON_ERROR (cuda_record en dest CUDA_WAIT_WRITE)
       (\<lambda>s. (Ret GA_NO_ERROR, cuda_exit s))))))) s))"

definition reduce_scatter ::
  "build \<Rightarrow> env \<Rightarrow> gpudata \<Rightarrow> size_t \<Rightarrow> gpudata \<Rightarrow> size_t \<Rightarrow> c_int \<Rightarrow> ga_typecode \<Rightarrow> c_int
     \<Rightarrow> gpucomm \<Rightarrow> cuda_state \<Rightarrow> result" where
  "reduce_scatter cfg en src offsrc dest offdest count typecode opcode comm s =
     (case get_count en comm s of ((e, ndev), s) \<Rightarrow>
      GA_CHECK (Ret e) s (\<lambda>s.
      case check_restrictions cfg src offsrc None 0 (count * ndev) typecode opcode comm
             True True of
        (r, datatype, op) \<Rightarrow>
      GA_CHECK r s (\<lambda>s.
      if ctx dest \<noteq> comm_ctx comm then (Ret GA_VALUE_ERROR, s)
      else
        let resc_size = scast count * gpuarray_get_elsize cfg typecode in
        if sz dest - offdest < resc_size then (Ret GA_VALUE_ERROR, s)
        else if \<not> ndebug cfg \<and> offdest > sz dest then (Crash AssertFail, s)
        else
          let s = cuda_enter s in
           (GA_CUDA_EXIT_ON_ERROR (cuda_wait en src CUDA_WAIT_READ)
           (GA_CUDA_EXIT_ON_ERROR (cuda_wait en dest CUDA_WAIT_WRITE)
           (NCCL_EXIT_ON_ERROR en
              (NcclReduceScatter (BufPtr src offsrc) (BufPtr dest offdest) count datatype op)
           (GA_CUDA_EXIT_ON_ERROR (cuda_record en src CUDA_WAIT_READ)
           (GA_CUDA_EXIT_ON_ERROR (cuda_record en dest CUDA_WAIT_WRITE)
           (\<lambda>s. (Ret GA_NO_ERROR, cuda_exit s))))))) s)))"

text \<open>
  \<open>broadcast\<close> names \<open>src\<close> and \<open>dest\<close> in its \<open>ASSERT_BUF\<close> lines, which are not
  its parameters; those macros are not modelled.  It passes the literal 0 as the
  operation code and no \<open>op\<close> out-pointer.
\<close>

definition broadcast ::
  "build \<Rightarrow> env \<Rightarrow> gpudata \<Rightarrow> size_t \<Rightarrow> c_int \<Rightarrow> ga_typecode \<Rightarrow> c_int \<Rightarrow> gpucomm
     \<Rightarrow> cuda_state \<Rightarrow> result" where
  "broadcast cfg en array offset count typecode rootr comm s =
     (case check_restrictions cfg array offset None 0 count typecode 0 comm True False of
        (r, datatype, op) \<Rightarrow>
      GA_CHECK r s (\<lambda>s.
      let s = cuda_enter s in
       (GA_CUDA_EXIT_ON_ERROR (cuda_wait en array CUDA_WAIT_READ)
       (NCCL_EXIT_ON_ERROR en (NcclBcast (BufPtr array offset) count datatype rootr)
       (GA_CUDA_EXIT_ON_ERROR (cuda_record en array CUDA_WAIT_READ)
       (\<lambda>s. (Ret GA_NO_ERROR, cuda_exit s))))) s))"

definition all_gather ::
  "build \<Rightarrow> env \<Rightarrow> gpudata \<Rightarrow> size_t \<Rightarrow> gpudata \<Rightarrow> size_t \<Rightarrow> c_int \<Rightarrow> ga_typecode \<Rightarrow> gpucomm
     \<Rightarrow> cuda_state \<Rightarrow> result" where
  "all_gather cfg en src offsrc dest offdest count typecode comm s =
     (case check_restrictions cfg src offsrc None 0 count typecode 0 comm True False of
        (r, datatype, op) \<Rightarrow>
      GA_CHECK r s (\<lambda>s.
      if ctx dest \<noteq> comm_ctx comm then (Ret GA_VALUE_ERROR, s)
      else
        case get_count en comm s of ((e, ndev), s) \<Rightarrow>
        GA_CHECK (Ret e) s (\<lambda>s.
        let resc_size = scast (ndev * count) * gpuarray_get_elsize cfg typecode in
        if sz dest - offdest < resc_size then (Ret GA_VALUE_ERROR, s)
        else if \<not> ndebug cfg \<and> offdest > sz dest then (Crash AssertFail, s)
        else
          let s = cuda_enter s in
           (GA_CUDA_EXIT_ON_ERROR (cuda_wait en src CUDA_WAIT_READ)
           (GA_CUDA_EXIT_ON_ERROR (cuda_wait en dest CUDA_WAIT_WRITE)
           (NCCL_EXIT_ON_ERROR en
              (NcclAllGather (BufPtr src offsrc) count datatype (BufPtr dest offdest))
           (GA_CUDA_EXIT_ON_ERROR (cuda_record en src CUDA_WAIT_READ)
           (GA_CUDA_EXIT_ON_ERROR (cuda_record en dest CUDA_WAIT_WRITE)
           (\<lambda>s. (Ret GA_NO_ERROR, cuda_exit s))))))) s)))"


section \<open>Reading a trace\<close>

text \<open>Extending the log by several entries at once.\<close>

definition log :: "event list \<Rightarrow> cuda_state \<Rightarrow> cuda_state" where
  "log es s = s\<lparr>trace := trace s @ es\<rparr>"

text \<open>The hazard calls of a trace, in order, with their modes.\<close>

fun waits_of :: "event list \<Rightarrow> (gpudata \<times> wait_mode) list" where
  "waits_of [] = []"
| "waits_of (Wait b m # es) = (b, m) # waits_of es"
| "waits_of (e # es) = waits_of es"

fun records_of :: "event list \<Rightarrow> (gpudata \<times> wait_mode) list" where
  "records_of [] = []"
| "records_of (Record b m # es) = (b, m) # records_of es"
| "records_of (e # es) = records_of es"

text \<open>The kernels launched, the vendor gemm calls and the vendor batched calls.\<close>

fun launched :: "event list \<Rightarrow> kernel list" where
  "launched [] = []"
| "launched (KernelCall k gs ls args # es) = k # launched es"
| "launched (e # es) = launched es"

fun gemm_calls :: "event list \<Rightarrow> (devptr \<times> devptr \<times> devptr) list" where
  "gemm_calls [] = []"
| "gemm_calls (Gemm p tA tB M N K a b c # es) = (a, b, c) # gemm_calls es"
| "gemm_calls (e # es) = gemm_calls es"

fun batched_calls :: "event list \<Rightarrow> (devptr \<times> devptr \<times> devptr \<times> size_t) list" where
  "batched_calls [] = []"
| "batched_calls (GemmBatched p tA tB M N K a b c n # es) = (a, b, c, n) # batched_calls es"
| "batched_calls (e # es) = batched_calls es"

text \<open>
  Scratch discipline.  Running over a trace with the list of live scratch buffers:
  an allocation must be fresh, a release must name a live buffer and retires it.
  A trace is \<open>scratch_released\<close> when the run succeeds and ends with nothing live:
  every scratch buffer that was allocated has been released exactly once, after its
  allocation, and nothing else has been released.
\<close>

fun scratch_live :: "event list \<Rightarrow> nat list \<Rightarrow> nat list option" where
  "scratch_live [] live = Some live"
| "scratch_live (Alloc h n d # es) live =
     (if h \<in> set live then None else scratch_live es (h # live))"
| "scratch_live (Release h # es) live =
     (if h \<in> set live then scratch_live es (removeAll h live) else None)"
| "scratch_live (e # es) live = scratch_live es live"

definition scratch_released :: "event list \<Rightarrow> bool" where
  "scratch_released tr = (scratch_live tr [] = Some [])"

text \<open>Events that neither allocate nor release scratch memory.\<close>

fun no_scratch :: "event \<Rightarrow> bool" where
  "no_scratch (Alloc h n d) = False"
| "no_scratch (Release h) = False"
| "no_scratch e = True"

text \<open>
  Communicator queries are host-side bookkeeping; every other entry of a trace is work
  on the device queue, a hazard call or a move of the gate.
\<close>

fun host_query :: "event \<Rightarrow> bool" where
  "host_query CommUserRank = True"
| "host_query CommCount = True"
| "host_query e = False"

text \<open>An environment in which every collaborator call succeeds.\<close>

definition succeeds :: "env \<Rightarrow> bool" where
  "succeeds en =
     ((\<forall>n. ga_ret en n = GA_NO_ERROR) \<and> (\<forall>n. alloc_ok en n) \<and>
      (\<forall>n. cublas_ret en n = CUBLAS_STATUS_SUCCESS) \<and> (\<forall>n. nccl_ret en n = ncclSuccess))"

text \<open>Events other than a vendor gemm call on one item.\<close>

fun not_gemm :: "event \<Rightarrow> bool" where
  "not_gemm (Gemm p tA tB M N K a b c) = False"
| "not_gemm e = True"

text \<open>
  Events of the per-item branch: no scratch allocation, write or release and no
  vendor batched call.
\<close>

fun per_item_only :: "event \<Rightarrow> bool" where
  "per_item_only (Alloc h n d) = False"
| "per_item_only (AllocFail n) = False"
| "per_item_only (Write h d) = False"
| "per_item_only (Release h) = False"
| "per_item_only (GemmBatched p tA tB M N K a b c n) = False"
| "per_item_only e = True"

text \<open>
  A command in continuation style \<open>runs_with P\<close> when, from any state and for any
  continuation, it logs only events satisfying \<open>P\<close> and then either returns or hands
  over to the continuation.
\<close>

definition runs_with :: "(event \<Rightarrow> bool) \<Rightarrow> ((cuda_state \<Rightarrow> result) \<Rightarrow> cuda_state \<Rightarrow> result) \<Rightarrow> bool" where
  "runs_with P f =
     (\<forall>k s. \<exists>es. list_all P es \<and> ((\<exists>r. f k s = (r, log es s)) \<or> f k s = k (log es s)))"

text \<open>
  An operand overruns its buffer: the offset lies within the buffer and \<open>n\<close>
  elements of the given type do not fit between the offset and the end of the buffer.
  Sizes are compared as integers, so nothing wraps here.
\<close>

definition overruns :: "build \<Rightarrow> gpudata \<Rightarrow> size_t \<Rightarrow> int \<Rightarrow> ga_typecode \<Rightarrow> bool" where
  "overruns cfg b off n tc =
     (off \<le> sz b \<and>
      int (unat (sz b)) - int (unat off) < n * int (unat (gpuarray_get_elsize cfg tc)))"

text \<open>
  A call is rejected: it returns \<open>GA_VALUE_ERROR\<close> and its trace holds nothing but
  communicator queries, so the gate was not entered, nothing was enqueued and no
  hazard call was made.
\<close>

definition rejected :: "result \<Rightarrow> bool" where
  "rejected r = (fst r = Ret GA_VALUE_ERROR \<and> list_all host_query (trace (snd r)))"

subsection \<open>Concrete inputs\<close>

definition buf :: "nat \<Rightarrow> gpudata" where
  "buf n = \<lparr>buf_id = n, ctx = 0, sz = 64\<rparr>"

definition all_ok :: env where
  "all_ok = \<lparr>ga_ret = (\<lambda>n. GA_NO_ERROR), alloc_ok = (\<lambda>n. True),
     err_code = (\<lambda>n. GA_MEMORY_ERROR), cublas_ret = (\<lambda>n. CUBLAS_STATUS_SUCCESS),
     nccl_ret = (\<lambda>n. ncclSuccess), int_ret = (\<lambda>n. 0)\<rparr>"

definition release_build :: build where
  "release_build = \<lparr>ndebug = True, cuda_has_half = True, gpuarray_get_elsize = (\<lambda>t. 4)\<rparr>"

definition debug_build :: build where
  "debug_build = \<lparr>ndebug = False, cuda_has_half = True, gpuarray_get_elsize = (\<lambda>t. 4)\<rparr>"

definition host0 :: cuda_state where
  "host0 = init_state CUBLAS_POINTER_MODE_HOST"

section \<open>Reasoning about traces\<close>

lemma step_no_emit [simp]: "step_no (emit e s) = Suc (step_no s)"
  by (simp add: step_no_def emit_def)

lemma pmode_emit [simp]: "pmode (emit e s) = pmode s"
  by (simp add: emit_def)

lemma trace_emit [simp]: "trace (emit e s) = trace s @ [e]"
  by (simp add: emit_def)

lemma log_Nil [simp]: "log [] s = s"
  by (simp add: log_def)

lemma log_log [simp]: "log es (log ds s) = log (ds @ es) s"
  by (simp add: log_def)

lemma emit_log: "emit e s = log [e] s"
  by (simp add: emit_def log_def)

lemma trace_log [simp]: "trace (log es s) = trace s @ es"
  by (simp add: log_def)

lemma step_no_log [simp]: "step_no (log es s) = step_no s + length es"
  by (simp add: log_def step_no_def)

lemma runs_with_id: "runs_with P (\<lambda>k. k)"
  unfolding runs_with_def
proof (intro allI)
  fix k :: "cuda_state \<Rightarrow> result" and s
  have "list_all P [] \<and> ((\<exists>r. k s = (r, log [] s)) \<or> k s = k (log [] s))" by simp
  then show "\<exists>es. list_all P es \<and> ((\<exists>r. k s = (r, log es s)) \<or> k s = k (log es s))" by blast
qed

lemma runs_with_comp:
  assumes f: "runs_with P f" and g: "runs_with P g"
  shows "runs_with P (\<lambda>k. f (g k))"
  unfolding runs_with_def
proof (intro allI)
  fix k :: "cuda_state \<Rightarrow> result" and s
  from f obtain es where es: "list_all P es"
    and c1: "(\<exists>r. f (g k) s = (r, log es s)) \<or> f (g k) s = g k (log es s)"
    unfolding runs_with_def by blast
  from g obtain ds where ds: "list_all P ds"
    and c2: "(\<exists>r. g k (log es s) = (r, log ds (log es s))) \<or> g k (log es s) = k (log ds (log es s))"
    unfolding runs_with_def by blast
  from c1 show "\<exists>es. list_all P es \<and> ((\<exists>r. f (g k) s = (r, log es s)) \<or> f (g k) s = k (log es s))"
  proof
    assume "\<exists>r. f (g k) s = (r, log es s)"
    with es show ?thesis by blast
  next
    assume eq: "f (g k) s = g k (log es s)"
    have "list_all P (es @ ds)" using es ds by simp
    moreover from c2 eq have "(\<exists>r. f (g k) s = (r, log (es @ ds) s)) \<or> f (g k) s = k (log (es @ ds) s)"
      by auto
    ultimately show ?thesis by blast
  qed
qed

lemma runs_with_for_i:
  assumes "\<And>i. runs_with P (body i)"
  shows "runs_with P (for_i idx body)"
proof (induction idx)
  case Nil
  have "for_i [] body = (\<lambda>k. k)" by (rule ext) simp
  then show ?case by (simp add: runs_with_id)
next
  case (Cons i idx)
  have "for_i (i # idx) body = (\<lambda>k. body i (for_i idx body k))" by (rule ext) simp
  then show ?case using runs_with_comp [OF assms [of i] Cons.IH] by simp
qed

lemma runs_with_ga:
  assumes "\<And>s. \<exists>e. P e \<and> snd (cmd s) = emit e s" and "P Exit"
  shows "runs_with P (GA_CUDA_EXIT_ON_ERROR cmd)"
  unfolding runs_with_def
proof (intro allI)
  fix k :: "cuda_state \<Rightarrow> result" and s
  from assms(1) obtain e where e: "P e" "snd (cmd s) = emit e s" by blast
  obtain err s1 where c: "cmd s = (err, s1)" by (cases "cmd s")
  with e have s1: "s1 = log [e] s" by (simp add: emit_log)
  show "\<exists>es. list_all P es \<and> ((\<exists>r. GA_CUDA_EXIT_ON_ERROR cmd k s = (r, log es s)) \<or> GA_CUDA_EXIT_ON_ERROR cmd k s = k (log es s))"
  proof (cases "err = GA_NO_ERROR")
    case True
    then have "GA_CUDA_EXIT_ON_ERROR cmd k s = k (log [e] s)"
      by (simp add: GA_CUDA_EXIT_ON_ERROR_def c s1)
    moreover have "list_all P [e]" using e by simp
    ultimately show ?thesis by blast
  next
    case False
    then have "GA_CUDA_EXIT_ON_ERROR cmd k s = (Ret err, log [e, Exit] s)"
      by (simp add: GA_CUDA_EXIT_ON_ERROR_def c s1 cuda_exit_def emit_log)
    moreover have "list_all P [e, Exit]" using e assms(2) by simp
    ultimately show ?thesis by blast
  qed
qed

lemma runs_with_cublas:
  assumes "\<And>s. \<exists>e. P e \<and> snd (cmd s) = emit e s" and "P Exit"
  shows "runs_with P (CUBLAS_EXIT_ON_ERROR cmd)"
  unfolding runs_with_def
proof (intro allI)
  fix k :: "cuda_state \<Rightarrow> result" and s
  from assms(1) obtain e where e: "P e" "snd (cmd s) = emit e s" by blast
  obtain err s1 where c: "cmd s = (err, s1)" by (cases "cmd s")
  with e have s1: "s1 = log [e] s" by (simp add: emit_log)
  show "\<exists>es. list_all P es \<and> ((\<exists>r. CUBLAS_EXIT_ON_ERROR cmd k s = (r, log es s)) \<or> CUBLAS_EXIT_ON_ERROR cmd k s = k (log es s))"
  proof (cases "err = CUBLAS_STATUS_SUCCESS")
    case True
    then have "CUBLAS_EXIT_ON_ERROR cmd k s = k (log [e] s)"
      by (simp add: CUBLAS_EXIT_ON_ERROR_def c s1)
    moreover have "list_all P [e]" using e by simp
    ultimately show ?thesis by blast
  next
    case False
    then have "CUBLAS_EXIT_ON_ERROR cmd k s = (Ret (error_cublas err), log [e, Exit] s)"
      by (simp add: CUBLAS_EXIT_ON_ERROR_def c s1 cuda_exit_def emit_log)
    moreover have "list_all P [e, Exit]" using e assms(2) by simp
    ultimately show ?thesis by blast
  qed
qed

lemma runs_with_wait:
  assumes "P (Wait b m)" and "P Exit"
  shows "runs_with P (GA_CUDA_EXIT_ON_ERROR (cuda_wait en b m))"
  by (rule runs_with_ga) (use assms in \<open>auto simp: cuda_wait_def\<close>)

lemma runs_with_record:
  assumes "P (Record b m)" and "P Exit"
  shows "runs_with P (GA_CUDA_EXIT_ON_ERROR (cuda_record en b m))"
  by (rule runs_with_ga) (use assms in \<open>auto simp: cuda_record_def\<close>)

lemma runs_with_gemm:
  assumes "P (Gemm p tA tB M N K a b c)" and "P Exit"
  shows "runs_with P (CUBLAS_EXIT_ON_ERROR (cublasGemm en p tA tB M N K a b c))"
  by (rule runs_with_cublas) (use assms in \<open>auto simp: cublasGemm_def\<close>)

lemma runs_with_tail:
  assumes "runs_with P f" and "P Exit"
  shows "\<exists>es r. list_all P es \<and> f (\<lambda>s. (Ret GA_NO_ERROR, cuda_exit s)) s = (r, log es s)"
proof -
  let ?k = "\<lambda>s. (Ret GA_NO_ERROR, cuda_exit s)"
  from assms(1) obtain es where es: "list_all P es"
    and c: "(\<exists>r. f ?k s = (r, log es s)) \<or> f ?k s = ?k (log es s)"
    unfolding runs_with_def by blast
  from c show ?thesis
  proof
    assume "\<exists>r. f ?k s = (r, log es s)"
    with es show ?thesis by blast
  next
    assume "f ?k s = ?k (log es s)"
    then have "f ?k s = (Ret GA_NO_ERROR, log (es @ [Exit]) s)"
      by (simp add: cuda_exit_def emit_log)
    moreover have "list_all P (es @ [Exit])" using es assms(2) by simp
    ultimately show ?thesis by blast
  qed
qed

lemma scratch_live_quiet: "list_all no_scratch es \<Longrightarrow> scratch_live es live = Some live"
proof (induction es)
  case Nil
  then show ?case by simp
next
  case (Cons e es)
  then show ?case by (cases e) simp_all
qed

lemma scratch_live_append:
  "scratch_live (xs @ ys) live =
     (case scratch_live xs live of None \<Rightarrow> None | Some l \<Rightarrow> scratch_live ys l)"
proof (induction xs arbitrary: live)
  case Nil
  then show ?case by simp
next
  case (Cons e xs)
  then show ?case by (cases e) simp_all
qed


lemma runs_with_ga3:
  assumes "runs_with P (GA_CUDA_EXIT_ON_ERROR c1)" "runs_with P (GA_CUDA_EXIT_ON_ERROR c2)"
    "runs_with P (GA_CUDA_EXIT_ON_ERROR c3)"
  shows "runs_with P (\<lambda>k. GA_CUDA_EXIT_ON_ERROR c1 (GA_CUDA_EXIT_ON_ERROR c2 (GA_CUDA_EXIT_ON_ERROR c3 k)))"
  using runs_with_comp [OF assms(1) runs_with_comp [OF assms(2) assms(3)]] .

lemma record_loop_quiet:
  assumes "\<And>b m. P (Record b m)" and "P Exit"
  shows "\<exists>es r. list_all P es \<and>
     for_i idx (\<lambda>i k. GA_CUDA_EXIT_ON_ERROR (cuda_record en (A i) ma)
                     (GA_CUDA_EXIT_ON_ERROR (cuda_record en (B i) mb)
                     (GA_CUDA_EXIT_ON_ERROR (cuda_record en (C i) mc) k)))
       (\<lambda>s. (Ret GA_NO_ERROR, cuda_exit s)) s = (r, log es s)"
  by (rule runs_with_tail [OF runs_with_for_i [OF runs_with_ga3]])
     (simp_all add: runs_with_record assms)

lemma wait_loop_runs:
  assumes "\<And>b m. P (Wait b m)" and "P Exit"
  shows "runs_with P (for_i idx (\<lambda>i k. GA_CUDA_EXIT_ON_ERROR (cuda_wait en (A i) ma)
                     (GA_CUDA_EXIT_ON_ERROR (cuda_wait en (B i) mb)
                     (GA_CUDA_EXIT_ON_ERROR (cuda_wait en (C i) mc) k))))"
  by (rule runs_with_for_i [OF runs_with_ga3]) (simp_all add: runs_with_wait assms)

lemma gemvBatch_launch_scratch:
  "\<exists>r es. gemvBatch_launch en kern gs ls M N A offA lda x offX incX y offY incY bc s = (r, log es s)
     \<and> scratch_live es [] = Some []"
proof -
  let ?n = "step_no s"
  let ?idx = "[0..<unat bc]"
  let ?A = "map (\<lambda>i. BufPtr (A i) (offA i)) ?idx"
  let ?x = "map (\<lambda>i. BufPtr (x i) (offX i)) ?idx"
  let ?y = "map (\<lambda>i. BufPtr (y i) (offY i)) ?idx"
  let ?f = "gemvBatch_launch en kern gs ls M N A offA lda x offX incX y offY incY bc s"
  consider (a) "\<not> alloc_ok en ?n"
    | (b) "alloc_ok en ?n" "\<not> alloc_ok en (Suc ?n)"
    | (c) "alloc_ok en ?n" "alloc_ok en (Suc ?n)" "\<not> alloc_ok en (Suc (Suc ?n))"
    | (d) "alloc_ok en ?n" "alloc_ok en (Suc ?n)" "alloc_ok en (Suc (Suc ?n))"
          "ga_ret en (Suc (Suc (Suc ?n))) \<noteq> GA_NO_ERROR"
    | (e) "alloc_ok en ?n" "alloc_ok en (Suc ?n)" "alloc_ok en (Suc (Suc ?n))"
          "ga_ret en (Suc (Suc (Suc ?n))) = GA_NO_ERROR"
    by blast
  then show ?thesis
  proof cases
    case a
    then have "?f = (Ret (err_code en (Suc ?n)), log [AllocFail (8 * bc)] s)"
      by (simp add: Let_def gemvBatch_launch_def buffer_alloc_def emit_log)
    moreover have "scratch_live [AllocFail (8 * bc)] [] = Some []" by simp
    ultimately show ?thesis by blast
  next
    case b
    then have "?f = (Ret (err_code en (Suc (Suc (Suc ?n)))),
        log [Alloc ?n (8 * bc) ?A, AllocFail (8 * bc), Release ?n] s)"
      by (simp add: Let_def gemvBatch_launch_def buffer_alloc_def buffer_release_def emit_log)
    moreover have "scratch_live [Alloc ?n (8 * bc) ?A, AllocFail (8 * bc), Release ?n] [] = Some []"
      by simp
    ultimately show ?thesis by blast
  next
    case c
    then have "?f = (Ret (err_code en (Suc (Suc (Suc (Suc (Suc ?n)))))),
        log [Alloc ?n (8 * bc) ?A, Alloc (Suc ?n) (8 * bc) ?x, AllocFail (8 * bc),
             Release ?n, Release (Suc ?n)] s)"
      by (simp add: Let_def gemvBatch_launch_def buffer_alloc_def buffer_release_def emit_log)
    moreover have "scratch_live [Alloc ?n (8 * bc) ?A, Alloc (Suc ?n) (8 * bc) ?x, AllocFail (8 * bc),
             Release ?n, Release (Suc ?n)] [] = Some []"
      by simp
    ultimately show ?thesis by blast
  next
    case d
    let ?args = "[ArgBuf ?n, ArgSize lda, ArgBuf (Suc ?n), ArgSize incX, ArgBuf (Suc (Suc ?n)),
                  ArgSize incY, ArgSize bc, ArgSize M, ArgSize N]"
    let ?es = "[Alloc ?n (8 * bc) ?A, Alloc (Suc ?n) (8 * bc) ?x, Alloc (Suc (Suc ?n)) (8 * bc) ?y,
             KernelCall kern gs ls ?args, Release ?n, Release (Suc ?n), Release (Suc (Suc ?n)), Exit]"
    from d have "?f = (Ret (ga_ret en (Suc (Suc (Suc ?n)))), log ?es s)"
      by (simp add: Let_def gemvBatch_launch_def buffer_alloc_def buffer_release_def GpuKernel_call_def
          cuda_exit_def emit_log)
    moreover have "scratch_live ?es [] = Some []"
      by simp
    ultimately show ?thesis by blast
  next
    case e
    let ?args = "[ArgBuf ?n, ArgSize lda, ArgBuf (Suc ?n), ArgSize incX, ArgBuf (Suc (Suc ?n)),
                  ArgSize incY, ArgSize bc, ArgSize M, ArgSize N]"
    let ?es = "[Alloc ?n (8 * bc) ?A, Alloc (Suc ?n) (8 * bc) ?x, Alloc (Suc (Suc ?n)) (8 * bc) ?y,
             KernelCall kern gs ls ?args, Release ?n, Release (Suc ?n), Release (Suc (Suc ?n))]"
    have pre: "buffer_release (Suc (Suc ?n)) (buffer_release (Suc ?n) (buffer_release ?n
        (snd (GpuKernel_call en kern gs ls ?args
          (emit (Alloc (Suc (Suc ?n)) (8 * bc) ?y) (emit (Alloc (Suc ?n) (8 * bc) ?x)
             (emit (Alloc ?n (8 * bc) ?A) s))))))) = log ?es s"
      by (simp add: buffer_release_def GpuKernel_call_def emit_log)
    obtain ds r where ds: "list_all no_scratch ds"
      and loop: "for_i ?idx (\<lambda>i k. GA_CUDA_EXIT_ON_ERROR (cuda_record en (A i) CUDA_WAIT_READ)
                     (GA_CUDA_EXIT_ON_ERROR (cuda_record en (x i) CUDA_WAIT_READ)
                     (GA_CUDA_EXIT_ON_ERROR (cuda_record en (y i) CUDA_WAIT_ALL) k)))
       (\<lambda>s. (Ret GA_NO_ERROR, cuda_exit s)) (log ?es s) = (r, log ds (log ?es s))"
      using record_loop_quiet [of no_scratch ?idx en A CUDA_WAIT_READ x CUDA_WAIT_READ y CUDA_WAIT_ALL "log ?es s"]
      by auto
    from e have "?f = for_i ?idx (\<lambda>i k. GA_CUDA_EXIT_ON_ERROR (cuda_record en (A i) CUDA_WAIT_READ)
                     (GA_CUDA_EXIT_ON_ERROR (cuda_record en (x i) CUDA_WAIT_READ)
                     (GA_CUDA_EXIT_ON_ERROR (cuda_record en (y i) CUDA_WAIT_ALL) k)))
       (\<lambda>s. (Ret GA_NO_ERROR, cuda_exit s)) (log ?es s)"
      unfolding pre [symmetric]
      by (simp add: Let_def gemvBatch_launch_def buffer_alloc_def GpuKernel_call_def)
    with loop have "?f = (r, log (?es @ ds) s)" by simp
    moreover have "scratch_live (?es @ ds) [] = Some []"
      using ds by (simp add: scratch_live_quiet)
    ultimately show ?thesis by blast
  qed
qed

lemma gerBatch_launch_scratch:
  "\<exists>r es. gerBatch_launch en kern gs ls M N alpha x offX incX y offY incY A offA lda bc s = (r, log es s)
     \<and> scratch_live es [] = Some []"
proof -
  let ?n = "step_no s"
  let ?idx = "[0..<unat bc]"
  let ?A = "map (\<lambda>i. BufPtr (A i) (offA i)) ?idx"
  let ?x = "map (\<lambda>i. BufPtr (x i) (offX i)) ?idx"
  let ?y = "map (\<lambda>i. BufPtr (y i) (offY i)) ?idx"
  let ?f = "gerBatch_launch en kern gs ls M N alpha x offX incX y offY incY A offA lda bc s"
  consider (a) "\<not> alloc_ok en ?n"
    | (b) "alloc_ok en ?n" "\<not> alloc_ok en (Suc ?n)"
    | (c) "alloc_ok en ?n" "alloc_ok en (Suc ?n)" "\<not> alloc_ok en (Suc (Suc ?n))"
    | (d) "alloc_ok en ?n" "alloc_ok en (Suc ?n)" "alloc_ok en (Suc (Suc ?n))"
          "ga_ret en (Suc (Suc (Suc ?n))) \<noteq> GA_NO_ERROR"
    | (e) "alloc_ok en ?n" "alloc_ok en (Suc ?n)" "alloc_ok en (Suc (Suc ?n))"
          "ga_ret en (Suc (Suc (Suc ?n))) = GA_NO_ERROR"
    by blast
  then show ?thesis
  proof cases
    case a
    then have "?f = (Ret (err_code en (Suc ?n)), log [AllocFail (8 * bc)] s)"
      by (simp add: Let_def gerBatch_launch_def buffer_alloc_def emit_log)
    moreover have "scratch_live [AllocFail (8 * bc)] [] = Some []" by simp
    ultimately show ?thesis by blast
  next
    case b
    then have "?f = (Ret (err_code en (Suc (Suc (Suc ?n)))),
        log [Alloc ?n (8 * bc) ?A, AllocFail (8 * bc), Release ?n] s)"
      by (simp add: Let_def gerBatch_launch_def buffer_alloc_def buffer_release_def emit_log)
    moreover have "scratch_live [Alloc ?n (8 * bc) ?A, AllocFail (8 * bc), Release ?n] [] = Some []"
      by simp
    ultimately show ?thesis by blast
  next
    case c
    then have "?f = (Ret (err_code en (Suc (Suc (Suc (Suc (Suc ?n)))))),
        log [Alloc ?n (8 * bc) ?A, Alloc (Suc ?n) (8 * bc) ?x, AllocFail (8 * bc),
             Release ?n, Release (Suc ?n)] s)"
      by (simp add: Let_def gerBatch_launch_def buffer_alloc_def buffer_release_def emit_log)
    moreover have "scratch_live [Alloc ?n (8 * bc) ?A, Alloc (Suc ?n) (8 * bc) ?x, AllocFail (8 * bc),
             Release ?n, Release (Suc ?n)] [] = Some []"
      by simp
    ultimately show ?thesis by blast
  next
    case d
    let ?args = "[ArgBuf (Suc ?n), ArgSize incX, ArgBuf (Suc (Suc ?n)), ArgSize incY, ArgScalar alpha,
                  ArgBuf ?n, ArgSize lda, ArgSize bc, ArgSize M, ArgSize N]"
    let ?es = "[Alloc ?n (8 * bc) ?A, Alloc (Suc ?n) (8 * bc) ?x, Alloc (Suc (Suc ?n)) (8 * bc) ?y,
             KernelCall kern gs ls ?args, Release ?n, Release (Suc ?n), Release (Suc (Suc ?n)), Exit]"
    from d have "?f = (Ret (ga_ret en (Suc (Suc (Suc ?n)))), log ?es s)"
      by (simp add: Let_def gerBatch_launch_def buffer_alloc_def buffer_release_def GpuKernel_call_def
          cuda_exit_def emit_log)
    moreover have "scratch_live ?es [] = Some []"
      by simp
    ultimately show ?thesis by blast
  next
    case e
    let ?args = "[ArgBuf (Suc ?n), ArgSize incX, ArgBuf (Suc (Suc ?n)), ArgSize incY, ArgScalar alpha,
                  ArgBuf ?n, ArgSize lda, ArgSize bc, ArgSize M, ArgSize N]"
    let ?es = "[Alloc ?n (8 * bc) ?A, Alloc (Suc ?n) (8 * bc) ?x, Alloc (Suc (Suc ?n)) (8 * bc) ?y,
             KernelCall kern gs ls ?args, Release ?n, Release (Suc ?n), Release (Suc (Suc ?n))]"
    have pre: "buffer_release (Suc (Suc ?n)) (buffer_release (Suc ?n) (buffer_release ?n
        (snd (GpuKernel_call en kern gs ls ?args
          (emit (Alloc (Suc (Suc ?n)) (8 * bc) ?y) (emit (Alloc (Suc ?n) (8 * bc) ?x)
             (emit (Alloc ?n (8 * bc) ?A) s))))))) = log ?es s"
      by (simp add: buffer_release_def GpuKernel_call_def emit_log)
    obtain ds r where ds: "list_all no_scratch ds"
      and loop: "for_i ?idx (\<lambda>i k. GA_CUDA_EXIT_ON_ERROR (cuda_record en (A i) CUDA_WAIT_READ)
                     (GA_CUDA_EXIT_ON_ERROR (cuda_record en (x i) CUDA_WAIT_READ)
                     (GA_CUDA_EXIT_ON_ERROR (cuda_record en (y i) CUDA_WAIT_ALL) k)))
       (\<lambda>s. (Ret GA_NO_ERROR, cuda_exit s)) (log ?es s) = (r, log ds (log ?es s))"
      using record_loop_quiet [of no_scratch ?idx en A CUDA_WAIT_READ x CUDA_WAIT_READ y CUDA_WAIT_ALL "log ?es s"]
      by auto
    from e have "?f = for_i ?idx (\<lambda>i k. GA_CUDA_EXIT_ON_ERROR (cuda_record en (A i) CUDA_WAIT_READ)
                     (GA_CUDA_EXIT_ON_ERROR (cuda_record en (x i) CUDA_WAIT_READ)
                     (GA_CUDA_EXIT_ON_ERROR (cuda_record en (y i) CUDA_WAIT_ALL) k)))
       (\<lambda>s. (Ret GA_NO_ERROR, cuda_exit s)) (log ?es s)"
      unfolding pre [symmetric]
      by (simp add: Let_def gerBatch_launch_def buffer_alloc_def GpuKernel_call_def)
    with loop have "?f = (r, log (?es @ ds) s)" by simp
    moreover have "scratch_live (?es @ ds) [] = Some []"
      using ds by (simp add: scratch_live_quiet)
    ultimately show ?thesis by blast
  qed
qed


lemma loop_then_tail_scratch:
  assumes f: "runs_with no_scratch f"
    and tail: "\<And>s. \<exists>r es. k s = (r, log es s) \<and> scratch_live es [] = Some []"
  shows "\<exists>r es. f k s = (r, log es s) \<and> scratch_live es [] = Some []"
proof -
  from f obtain es where es: "list_all no_scratch es"
    and c: "(\<exists>r. f k s = (r, log es s)) \<or> f k s = k (log es s)"
    unfolding runs_with_def by blast
  from c show ?thesis
  proof
    assume "\<exists>r. f k s = (r, log es s)"
    moreover from es have "scratch_live es [] = Some []" by (rule scratch_live_quiet)
    ultimately show ?thesis by blast
  next
    assume eq: "f k s = k (log es s)"
    from tail obtain r ds where "k (log es s) = (r, log ds (log es s))"
      and ds: "scratch_live ds [] = Some []" by blast
    with eq have "f k s = (r, log (es @ ds) s)" by simp
    moreover have "scratch_live (es @ ds) [] = Some []"
      using es ds by (simp add: scratch_live_append scratch_live_quiet)
    ultimately show ?thesis by blast
  qed
qed

lemma entered_scratch:
  assumes f: "runs_with no_scratch f"
    and tail: "\<And>s. \<exists>r es. k s = (r, log es s) \<and> scratch_live es [] = Some []"
  shows "scratch_released (trace (snd (f k (cuda_enter (init_state pm)))))"
  using loop_then_tail_scratch [OF f tail, of "cuda_enter (init_state pm)"]
  by (auto simp: scratch_released_def cuda_enter_def init_state_def)

lemma scratch_released_init: "scratch_released (trace (init_state pm))"
  by (simp add: scratch_released_def init_state_def)

lemma gemvBatch_scratch:
  "scratch_released (trace (snd (gemvBatch kN kT en order transA M N alpha A offA lda x offX incX
      beta y offY incY batchCount flags (init_state pm))))"
proof -
  have main: "\<And>kern gs ls M1 N1. scratch_released (trace (snd (for_i [0..<unat batchCount]
          (\<lambda>i k.
             GA_CUDA_EXIT_ON_ERROR (cuda_wait en (A i) CUDA_WAIT_READ)
            (GA_CUDA_EXIT_ON_ERROR (cuda_wait en (x i) CUDA_WAIT_READ)
            (GA_CUDA_EXIT_ON_ERROR (cuda_wait en (y i) CUDA_WAIT_ALL) k)))
          (gemvBatch_launch en kern gs ls M1 N1
             A offA lda x offX incX y offY incY batchCount) (cuda_enter (init_state pm)))))"
    by (rule entered_scratch [OF wait_loop_runs gemvBatch_launch_scratch]) simp_all
  show ?thesis
    by (auto simp: gemvBatch_def Let_def main scratch_released_init split: option.split)
qed

lemma gerBatch_scratch:
  "scratch_released (trace (snd (gerBatch kern en order M N alpha x offX incX y offY incY A offA lda
      batchCount flags (init_state pm))))"
proof -
  have main: "\<And>gs ls M1 N1 x1 offX1 incX1 y1 offY1 incY1. scratch_released (trace (snd (for_i [0..<unat batchCount]
          (\<lambda>i k.
             GA_CUDA_EXIT_ON_ERROR (cuda_wait en (A i) CUDA_WAIT_ALL)
            (GA_CUDA_EXIT_ON_ERROR (cuda_wait en (x1 i) CUDA_WAIT_READ)
            (GA_CUDA_EXIT_ON_ERROR (cuda_wait en (y1 i) CUDA_WAIT_READ) k)))
          (gerBatch_launch en kern gs ls M1 N1 alpha x1 offX1 incX1 y1 offY1 incY1
             A offA lda batchCount) (cuda_enter (init_state pm)))))"
    by (rule entered_scratch [OF wait_loop_runs gerBatch_launch_scratch]) simp_all
  show ?thesis
    by (auto simp: gerBatch_def Let_def main scratch_released_init split: option.split)
qed


lemma gemmBatch_batched_cases:
  "\<exists>r es. gemmBatch_batched p en tA tB M N K A B C pA pB pC bc s = (r, log es s)
     \<and> scratch_live es [] = Some [] \<and> list_all not_gemm es"
proof -
  let ?n = "step_no s"
  let ?idx = "[0..<unat bc]"
  let ?T = "map pA ?idx @ map pB ?idx @ map pC ?idx"
  let ?call = "GemmBatched p tA tB M N K (ScratchPtr ?n 0) (ScratchPtr ?n (bc * 8))
                 (ScratchPtr ?n (bc * 8 * 2)) bc"
  let ?f = "gemmBatch_batched p en tA tB M N K A B C pA pB pC bc s"
  let ?P = "\<lambda>e. no_scratch e \<and> not_gemm e"
  consider (a) "\<not> alloc_ok en ?n"
    | (b) "alloc_ok en ?n" "ga_ret en (Suc ?n) \<noteq> GA_NO_ERROR"
    | (c) "alloc_ok en ?n" "ga_ret en (Suc ?n) = GA_NO_ERROR"
          "cublas_ret en (Suc (Suc ?n)) \<noteq> CUBLAS_STATUS_SUCCESS"
    | (d) "alloc_ok en ?n" "ga_ret en (Suc ?n) = GA_NO_ERROR"
          "cublas_ret en (Suc (Suc ?n)) = CUBLAS_STATUS_SUCCESS"
    by blast
  then show ?thesis
  proof cases
    case a
    let ?es = "[AllocFail (8 * bc * 3), Exit]"
    from a have "?f = (Ret (err_code en (Suc (Suc ?n))), log ?es s)"
      by (simp add: Let_def gemmBatch_batched_def buffer_alloc_def cuda_exit_def emit_log)
    moreover have "scratch_live ?es [] = Some [] \<and> list_all not_gemm ?es" by simp
    ultimately show ?thesis by blast
  next
    case b
    let ?es = "[Alloc ?n (8 * bc * 3) [], Write ?n ?T, Release ?n, Exit]"
    from b have "?f = (Ret (err_code en (Suc (Suc (Suc (Suc ?n))))), log ?es s)"
      by (simp add: Let_def gemmBatch_batched_def buffer_alloc_def gpudata_write_def
          buffer_release_def cuda_exit_def emit_log)
    moreover have "scratch_live ?es [] = Some [] \<and> list_all not_gemm ?es" by simp
    ultimately show ?thesis by blast
  next
    case c
    let ?es = "[Alloc ?n (8 * bc * 3) [], Write ?n ?T, ?call, Release ?n, Exit]"
    from c have "?f = (Ret (error_cublas (cublas_ret en (Suc (Suc ?n)))), log ?es s)"
      by (simp add: Let_def gemmBatch_batched_def buffer_alloc_def gpudata_write_def
          cublasGemmBatched_def buffer_release_def cuda_exit_def emit_log)
    moreover have "scratch_live ?es [] = Some [] \<and> list_all not_gemm ?es" by simp
    ultimately show ?thesis by blast
  next
    case d
    let ?es = "[Alloc ?n (8 * bc * 3) [], Write ?n ?T, ?call, Release ?n]"
    let ?loop = "for_i ?idx (\<lambda>i k. GA_CUDA_EXIT_ON_ERROR (cuda_record en (A i) CUDA_WAIT_READ)
                     (GA_CUDA_EXIT_ON_ERROR (cuda_record en (B i) CUDA_WAIT_READ)
                     (GA_CUDA_EXIT_ON_ERROR (cuda_record en (C i) CUDA_WAIT_ALL) k)))
       (\<lambda>s. (Ret GA_NO_ERROR, cuda_exit s))"
    have pre: "buffer_release ?n (snd (cublasGemmBatched en p tA tB M N K (ScratchPtr ?n 0)
         (ScratchPtr ?n (bc * 8)) (ScratchPtr ?n (bc * 8 * 2)) bc
         (snd (gpudata_write en ?n ?T (emit (Alloc ?n (8 * bc * 3) []) s))))) = log ?es s"
      by (simp add: buffer_release_def cublasGemmBatched_def gpudata_write_def emit_log)
    obtain ds r where ds: "list_all ?P ds" and loop: "?loop (log ?es s) = (r, log ds (log ?es s))"
      using record_loop_quiet [of ?P ?idx en A CUDA_WAIT_READ B CUDA_WAIT_READ C CUDA_WAIT_ALL "log ?es s"]
      by auto
    from d have "?f = ?loop (log ?es s)"
      unfolding pre [symmetric]
      by (simp add: Let_def gemmBatch_batched_def buffer_alloc_def gpudata_write_def
          cublasGemmBatched_def)
    with loop have "?f = (r, log (?es @ ds) s)" by simp
    moreover from ds have "list_all no_scratch ds" "list_all not_gemm ds"
      by (simp_all add: list_all_iff)
    then have "scratch_live (?es @ ds) [] = Some [] \<and> list_all not_gemm (?es @ ds)"
      by (simp add: scratch_live_quiet)
    ultimately show ?thesis by blast
  qed
qed

lemma gemmBatch_batched_scratch:
  "\<exists>r es. gemmBatch_batched p en tA tB M N K A B C pA pB pC bc s = (r, log es s)
     \<and> scratch_live es [] = Some []"
  using gemmBatch_batched_cases [of p en tA tB M N K A B C pA pB pC bc s] by blast

lemma gemmBatch_batched_not_gemm:
  "\<exists>r es. gemmBatch_batched p en tA tB M N K A B C pA pB pC bc s = (r, log es s)
     \<and> list_all not_gemm es"
  using gemmBatch_batched_cases [of p en tA tB M N K A B C pA pB pC bc s] by blast

lemma runs_with_item:
  assumes "P Exit" "\<And>b m. P (Wait b m)" "\<And>b m. P (Record b m)" "P (Gemm p tA tB M N K a b c)"
  shows "runs_with P (\<lambda>k.
       GA_CUDA_EXIT_ON_ERROR (cuda_wait en A ma)
      (GA_CUDA_EXIT_ON_ERROR (cuda_wait en B mb)
      (GA_CUDA_EXIT_ON_ERROR (cuda_wait en C mc)
      (CUBLAS_EXIT_ON_ERROR (cublasGemm en p tA tB M N K a b c)
      (GA_CUDA_EXIT_ON_ERROR (cuda_record en A ra)
      (GA_CUDA_EXIT_ON_ERROR (cuda_record en B rb)
      (GA_CUDA_EXIT_ON_ERROR (cuda_record en C rc) k)))))))"
proof -
  note w = runs_with_wait [of P _ _ en, OF assms(2) assms(1)]
  note r = runs_with_record [of P _ _ en, OF assms(3) assms(1)]
  note g = runs_with_gemm [of P p tA tB M N K a b c en, OF assms(4) assms(1)]
  show ?thesis
    using runs_with_comp [OF w runs_with_comp [OF w runs_with_comp [OF w
          runs_with_comp [OF g runs_with_comp [OF r runs_with_comp [OF r r]]]]]] .
qed

lemma per_item_loop_quiet:
  assumes "P Exit" "\<And>b m. P (Wait b m)" "\<And>b m. P (Record b m)"
    "\<And>a b c. P (Gemm p tA tB M N K a b c)"
  shows "\<exists>es r. list_all P es \<and>
     for_i idx (\<lambda>i k.
       GA_CUDA_EXIT_ON_ERROR (cuda_wait en (A i) ma)
      (GA_CUDA_EXIT_ON_ERROR (cuda_wait en (B i) mb)
      (GA_CUDA_EXIT_ON_ERROR (cuda_wait en (C i) mc)
      (CUBLAS_EXIT_ON_ERROR (cublasGemm en p tA tB M N K (pA i) (pB i) (pC i))
      (GA_CUDA_EXIT_ON_ERROR (cuda_record en (A i) ra)
      (GA_CUDA_EXIT_ON_ERROR (cuda_record en (B i) rb)
      (GA_CUDA_EXIT_ON_ERROR (cuda_record en (C i) rc) k)))))))
       (\<lambda>s. (Ret GA_NO_ERROR, cuda_exit s)) s = (r, log es s)"
  by (rule runs_with_tail [OF runs_with_for_i [OF runs_with_item]]) (simp_all add: assms)


lemma entered_all:
  assumes f: "runs_with P f"
    and tail: "\<And>s. \<exists>r es. k s = (r, log es s) \<and> list_all P es"
    and enter: "P Enter"
  shows "list_all P (trace (snd (f k (cuda_enter (init_state pm)))))"
proof -
  let ?s = "cuda_enter (init_state pm)"
  from f obtain es where es: "list_all P es"
    and c: "(\<exists>r. f k ?s = (r, log es ?s)) \<or> f k ?s = k (log es ?s)"
    unfolding runs_with_def by blast
  have s: "trace ?s = [Enter]" by (simp add: cuda_enter_def init_state_def)
  from c show ?thesis
  proof
    assume "\<exists>r. f k ?s = (r, log es ?s)"
    then show ?thesis using es enter s by auto
  next
    assume eq: "f k ?s = k (log es ?s)"
    from tail obtain r ds where "k (log es ?s) = (r, log ds (log es ?s))"
      and ds: "list_all P ds" by blast
    with eq have "f k ?s = (r, log (es @ ds) ?s)" by simp
    then show ?thesis using es ds enter s by simp
  qed
qed

lemma gemmBatch_scratch:
  "scratch_released (trace (snd (gemmBatch p en order transA transB M N K A offA lda B offB ldb
      C offC ldc batchCount (init_state pm))))"
proof -
  have small: "\<And>tA tB M1 N1 A1 B1 pA pB pC. scratch_released (trace (snd (for_i [0..<unat batchCount]
            (\<lambda>i k.
               GA_CUDA_EXIT_ON_ERROR (cuda_wait en (A1 i) CUDA_WAIT_READ)
              (GA_CUDA_EXIT_ON_ERROR (cuda_wait en (B1 i) CUDA_WAIT_READ)
              (GA_CUDA_EXIT_ON_ERROR (cuda_wait en (C i) CUDA_WAIT_ALL) k)))
            (gemmBatch_batched p en tA tB M1 N1 K A1 B1 C pA pB pC batchCount)
            (cuda_enter (init_state pm)))))"
    by (rule entered_scratch [OF wait_loop_runs gemmBatch_batched_scratch]) simp_all
  have big: "\<And>tA tB M1 N1 A1 B1 pA pB pC. scratch_released (trace (snd (for_i [0..<unat batchCount]
            (\<lambda>i k.
               GA_CUDA_EXIT_ON_ERROR (cuda_wait en (A1 i) CUDA_WAIT_READ)
              (GA_CUDA_EXIT_ON_ERROR (cuda_wait en (B1 i) CUDA_WAIT_READ)
              (GA_CUDA_EXIT_ON_ERROR (cuda_wait en (C i) CUDA_WAIT_ALL)
              (CUBLAS_EXIT_ON_ERROR (cublasGemm en p tA tB M1 N1 K (pA i) (pB i) (pC i))
              (GA_CUDA_EXIT_ON_ERROR (cuda_record en (A1 i) CUDA_WAIT_READ)
              (GA_CUDA_EXIT_ON_ERROR (cuda_record en (B1 i) CUDA_WAIT_READ)
              (GA_CUDA_EXIT_ON_ERROR (cuda_record en (C i) CUDA_WAIT_ALL) k)))))))
            (\<lambda>s. (Ret GA_NO_ERROR, cuda_exit s)) (cuda_enter (init_state pm)))))"
  proof -
    fix tA tB M1 N1 A1 B1 pA pB pC
    obtain es r where "list_all no_scratch es" and
      "for_i [0..<unat batchCount]
            (\<lambda>i k.
               GA_CUDA_EXIT_ON_ERROR (cuda_wait en (A1 i) CUDA_WAIT_READ)
              (GA_CUDA_EXIT_ON_ERROR (cuda_wait en (B1 i) CUDA_WAIT_READ)
              (GA_CUDA_EXIT_ON_ERROR (cuda_wait en (C i) CUDA_WAIT_ALL)
              (CUBLAS_EXIT_ON_ERROR (cublasGemm en p tA tB M1 N1 K (pA i) (pB i) (pC i))
              (GA_CUDA_EXIT_ON_ERROR (cuda_record en (A1 i) CUDA_WAIT_READ)
              (GA_CUDA_EXIT_ON_ERROR (cuda_record en (B1 i) CUDA_WAIT_READ)
              (GA_CUDA_EXIT_ON_ERROR (cuda_record en (C i) CUDA_WAIT_ALL) k)))))))
            (\<lambda>s. (Ret GA_NO_ERROR, cuda_exit s)) (cuda_enter (init_state pm))
         = (r, log es (cuda_enter (init_state pm)))"
      using per_item_loop_quiet [of no_scratch p tA tB M1 N1 K "[0..<unat batchCount]" en A1
          CUDA_WAIT_READ B1 CUDA_WAIT_READ C CUDA_WAIT_ALL pA pB pC CUDA_WAIT_READ CUDA_WAIT_READ
          CUDA_WAIT_ALL "cuda_enter (init_state pm)"]
      by auto
    then show "scratch_released (trace (snd (for_i [0..<unat batchCount]
            (\<lambda>i k.
               GA_CUDA_EXIT_ON_ERROR (cuda_wait en (A1 i) CUDA_WAIT_READ)
              (GA_CUDA_EXIT_ON_ERROR (cuda_wait en (B1 i) CUDA_WAIT_READ)
              (GA_CUDA_EXIT_ON_ERROR (cuda_wait en (C i) CUDA_WAIT_ALL)
              (CUBLAS_EXIT_ON_ERROR (cublasGemm en p tA tB M1 N1 K (pA i) (pB i) (pC i))
              (GA_CUDA_EXIT_ON_ERROR (cuda_record en (A1 i) CUDA_WAIT_READ)
              (GA_CUDA_EXIT_ON_ERROR (cuda_record en (B1 i) CUDA_WAIT_READ)
              (GA_CUDA_EXIT_ON_ERROR (cuda_record en (C i) CUDA_WAIT_ALL) k)))))))
            (\<lambda>s. (Ret GA_NO_ERROR, cuda_exit s)) (cuda_enter (init_state pm)))))"
      by (simp add: scratch_released_def cuda_enter_def init_state_def scratch_live_quiet)
  qed
  show ?thesis
    by (simp add: gemmBatch_def Let_def small big scratch_released_init)
qed

subsection \<open>Runs in which every collaborator call succeeds\<close>

lemma not_large: "\<not> LARGE_VAL v \<Longrightarrow> unat v < 2147483647"
  by (simp add: LARGE_VAL_def word_le_nat_alt not_le)

lemma volume_no_wrap:
  assumes "\<not> LARGE_VAL M" "\<not> LARGE_VAL N" "\<not> LARGE_VAL K" "\<not> LARGE_VAL (M * N)"
  shows "unat (M * N * K) = unat M * unat N * unat K"
proof -
  have m: "unat M < 2147483647" and n: "unat N < 2147483647" and k: "unat K < 2147483647"
    and p: "unat (M * N) < 2147483647"
    using assms by (simp_all add: not_large)
  have mn: "unat M * unat N < 2147483647 * 2147483647"
    using mult_strict_mono [OF m n] by simp
  then have "unat M * unat N < 2 ^ LENGTH(64)" by simp
  then have e1: "unat (M * N) = unat M * unat N" by (rule unat_mult_lem [THEN iffD1])
  have "unat (M * N) * unat K < 2147483647 * 2147483647"
    using mult_strict_mono [OF p k] by simp
  then have "unat (M * N) * unat K < 2 ^ LENGTH(64)" by simp
  then have "unat (M * N * K) = unat (M * N) * unat K" by (rule unat_mult_lem [THEN iffD1])
  with e1 show ?thesis by simp
qed

lemma big_iff:
  assumes "\<not> sizes_overflow M N K lda ldb ldc"
  shows "((274625000 :: size_t) < M * N * K) = (650 ^ 3 < unat M * unat N * unat K)"
    and "((274625000 :: size_t) < N * M * K) = (650 ^ 3 < unat M * unat N * unat K)"
proof -
  from assms have "\<not> LARGE_VAL M" "\<not> LARGE_VAL N" "\<not> LARGE_VAL K" "\<not> LARGE_VAL (M * N)"
    by (simp_all add: sizes_overflow_def)
  from volume_no_wrap [OF this]
  show "((274625000 :: size_t) < M * N * K) = (650 ^ 3 < unat M * unat N * unat K)"
    by (simp add: word_less_nat_alt)
  then show "((274625000 :: size_t) < N * M * K) = (650 ^ 3 < unat M * unat N * unat K)"
    by (simp add: mult.commute)
qed

lemma for_i_ok:
  assumes "\<And>i k s. body i k s = k (log (evs i) s)"
  shows "for_i idx body k s = k (log (concat (map evs idx)) s)"
  by (induction idx arbitrary: s) (simp_all add: assms)

lemma wait_ok:
  "succeeds en \<Longrightarrow> GA_CUDA_EXIT_ON_ERROR (cuda_wait en b m) k s = k (log [Wait b m] s)"
  by (simp add: succeeds_def GA_CUDA_EXIT_ON_ERROR_def cuda_wait_def emit_log)

lemma record_ok:
  "succeeds en \<Longrightarrow> GA_CUDA_EXIT_ON_ERROR (cuda_record en b m) k s = k (log [Record b m] s)"
  by (simp add: succeeds_def GA_CUDA_EXIT_ON_ERROR_def cuda_record_def emit_log)

lemma gemm_ok:
  "succeeds en \<Longrightarrow> CUBLAS_EXIT_ON_ERROR (cublasGemm en p tA tB M N K a b c) k s
     = k (log [Gemm p tA tB M N K a b c] s)"
  by (simp add: succeeds_def CUBLAS_EXIT_ON_ERROR_def cublasGemm_def emit_log)

lemma gemm_calls_append [simp]: "gemm_calls (xs @ ys) = gemm_calls xs @ gemm_calls ys"
proof (induction xs)
  case Nil
  then show ?case by simp
next
  case (Cons e xs)
  then show ?case by (cases e) simp_all
qed

lemma batched_calls_append [simp]: "batched_calls (xs @ ys) = batched_calls xs @ batched_calls ys"
proof (induction xs)
  case Nil
  then show ?case by simp
next
  case (Cons e xs)
  then show ?case by (cases e) simp_all
qed

lemma gemm_calls_concat:
  "gemm_calls (concat (map evs idx)) = concat (map (\<lambda>i. gemm_calls (evs i)) idx)"
  by (induction idx) simp_all

lemma batched_calls_concat:
  "batched_calls (concat (map evs idx)) = concat (map (\<lambda>i. batched_calls (evs i)) idx)"
  by (induction idx) simp_all

lemma length_concat3:
  assumes "\<And>i. length (evs i) = 3"
  shows "length (concat (map evs idx)) = 3 * length idx"
  by (induction idx) (simp_all add: assms)

lemma gemmBatch_big_ok:
  assumes "succeeds en"
  shows "for_i idx
            (\<lambda>i k.
               GA_CUDA_EXIT_ON_ERROR (cuda_wait en (A1 i) CUDA_WAIT_READ)
              (GA_CUDA_EXIT_ON_ERROR (cuda_wait en (B1 i) CUDA_WAIT_READ)
              (GA_CUDA_EXIT_ON_ERROR (cuda_wait en (C i) CUDA_WAIT_ALL)
              (CUBLAS_EXIT_ON_ERROR (cublasGemm en p tA tB M1 N1 K (pA i) (pB i) (pC i))
              (GA_CUDA_EXIT_ON_ERROR (cuda_record en (A1 i) CUDA_WAIT_READ)
              (GA_CUDA_EXIT_ON_ERROR (cuda_record en (B1 i) CUDA_WAIT_READ)
              (GA_CUDA_EXIT_ON_ERROR (cuda_record en (C i) CUDA_WAIT_ALL) k)))))))
            (\<lambda>s. (Ret GA_NO_ERROR, cuda_exit s)) s
         = (Ret GA_NO_ERROR, log (concat (map (\<lambda>i.
              [Wait (A1 i) CUDA_WAIT_READ, Wait (B1 i) CUDA_WAIT_READ, Wait (C i) CUDA_WAIT_ALL,
               Gemm p tA tB M1 N1 K (pA i) (pB i) (pC i),
               Record (A1 i) CUDA_WAIT_READ, Record (B1 i) CUDA_WAIT_READ,
               Record (C i) CUDA_WAIT_ALL]) idx) @ [Exit]) s)"
  by (subst for_i_ok [where evs = "\<lambda>i.
              [Wait (A1 i) CUDA_WAIT_READ, Wait (B1 i) CUDA_WAIT_READ, Wait (C i) CUDA_WAIT_ALL,
               Gemm p tA tB M1 N1 K (pA i) (pB i) (pC i),
               Record (A1 i) CUDA_WAIT_READ, Record (B1 i) CUDA_WAIT_READ,
               Record (C i) CUDA_WAIT_ALL]"])
     (simp_all add: wait_ok record_ok gemm_ok assms cuda_exit_def emit_log)

lemma wait_loop_ok:
  assumes "succeeds en"
  shows "for_i idx
            (\<lambda>i k.
               GA_CUDA_EXIT_ON_ERROR (cuda_wait en (A1 i) ma)
              (GA_CUDA_EXIT_ON_ERROR (cuda_wait en (B1 i) mb)
              (GA_CUDA_EXIT_ON_ERROR (cuda_wait en (C i) mc) k))) k s
         = k (log (concat (map (\<lambda>i. [Wait (A1 i) ma, Wait (B1 i) mb, Wait (C i) mc]) idx)) s)"
  by (subst for_i_ok [where evs = "\<lambda>i. [Wait (A1 i) ma, Wait (B1 i) mb, Wait (C i) mc]"])
     (simp_all add: wait_ok assms)

lemma record_loop_ok:
  assumes "succeeds en"
  shows "for_i idx
            (\<lambda>i k.
               GA_CUDA_EXIT_ON_ERROR (cuda_record en (A1 i) ma)
              (GA_CUDA_EXIT_ON_ERROR (cuda_record en (B1 i) mb)
              (GA_CUDA_EXIT_ON_ERROR (cuda_record en (C i) mc) k))) k s
         = k (log (concat (map (\<lambda>i. [Record (A1 i) ma, Record (B1 i) mb, Record (C i) mc]) idx)) s)"
  by (subst for_i_ok [where evs = "\<lambda>i. [Record (A1 i) ma, Record (B1 i) mb, Record (C i) mc]"])
     (simp_all add: record_ok assms)

lemma gemmBatch_batched_ok:
  assumes "succeeds en"
  shows "gemmBatch_batched p en tA tB M N K A B C pA pB pC bc s =
     (Ret GA_NO_ERROR, log ([Alloc (step_no s) (8 * bc * 3) [],
        Write (step_no s) (map pA [0..<unat bc] @ map pB [0..<unat bc] @ map pC [0..<unat bc]),
        GemmBatched p tA tB M N K (ScratchPtr (step_no s) 0) (ScratchPtr (step_no s) (bc * 8))
          (ScratchPtr (step_no s) (bc * 8 * 2)) bc,
        Release (step_no s)]
        @ concat (map (\<lambda>i. [Record (A i) CUDA_WAIT_READ, Record (B i) CUDA_WAIT_READ,
             Record (C i) CUDA_WAIT_ALL]) [0..<unat bc]) @ [Exit]) s)"
  using assms
  by (simp add: gemmBatch_batched_def Let_def buffer_alloc_def gpudata_write_def
      cublasGemmBatched_def buffer_release_def record_loop_ok cuda_exit_def emit_log)
     (simp add: succeeds_def)


lemma per_item_loop_all:
  assumes "P Exit" "\<And>b m. P (Wait b m)" "\<And>b m. P (Record b m)"
    "\<And>a b c. P (Gemm p tA tB M N K a b c)" "P Enter"
  shows "list_all P (trace (snd (
     for_i idx (\<lambda>i k.
       GA_CUDA_EXIT_ON_ERROR (cuda_wait en (A i) ma)
      (GA_CUDA_EXIT_ON_ERROR (cuda_wait en (B i) mb)
      (GA_CUDA_EXIT_ON_ERROR (cuda_wait en (C i) mc)
      (CUBLAS_EXIT_ON_ERROR (cublasGemm en p tA tB M N K (pA i) (pB i) (pC i))
      (GA_CUDA_EXIT_ON_ERROR (cuda_record en (A i) ra)
      (GA_CUDA_EXIT_ON_ERROR (cuda_record en (B i) rb)
      (GA_CUDA_EXIT_ON_ERROR (cuda_record en (C i) rc) k)))))))
       (\<lambda>s. (Ret GA_NO_ERROR, cuda_exit s)) (cuda_enter (init_state pm)))))"
  using per_item_loop_quiet [of P p tA tB M N K idx en A ma B mb C mc pA pB pC ra rb rc
      "cuda_enter (init_state pm)", OF assms(1-4)] assms(5)
  by (auto simp: cuda_enter_def init_state_def)

lemma gemmBatch_branches:
  assumes ok: "\<not> sizes_overflow M N K lda ldb ldc"
  shows "(650 ^ 3 < unat M * unat N * unat K \<longrightarrow>
            list_all per_item_only (trace (snd (gemmBatch p en order transA transB M N K A offA lda
               B offB ldb C offC ldc batchCount (init_state pm))))) \<and>
         (\<not> 650 ^ 3 < unat M * unat N * unat K \<longrightarrow>
            list_all not_gemm (trace (snd (gemmBatch p en order transA transB M N K A offA lda
               B offB ldb C offC ldc batchCount (init_state pm)))))"
proof -
  have small: "\<And>tA tB M1 N1 A1 B1 pA pB pC. list_all not_gemm (trace (snd (for_i [0..<unat batchCount]
            (\<lambda>i k.
               GA_CUDA_EXIT_ON_ERROR (cuda_wait en (A1 i) CUDA_WAIT_READ)
              (GA_CUDA_EXIT_ON_ERROR (cuda_wait en (B1 i) CUDA_WAIT_READ)
              (GA_CUDA_EXIT_ON_ERROR (cuda_wait en (C i) CUDA_WAIT_ALL) k)))
            (gemmBatch_batched p en tA tB M1 N1 K A1 B1 C pA pB pC batchCount)
            (cuda_enter (init_state pm)))))"
    by (rule entered_all [OF wait_loop_runs gemmBatch_batched_not_gemm]) simp_all
  have big: "\<And>tA tB M1 N1 A1 B1 pA pB pC. list_all per_item_only (trace (snd (for_i [0..<unat batchCount]
            (\<lambda>i k.
               GA_CUDA_EXIT_ON_ERROR (cuda_wait en (A1 i) CUDA_WAIT_READ)
              (GA_CUDA_EXIT_ON_ERROR (cuda_wait en (B1 i) CUDA_WAIT_READ)
              (GA_CUDA_EXIT_ON_ERROR (cuda_wait en (C i) CUDA_WAIT_ALL)
              (CUBLAS_EXIT_ON_ERROR (cublasGemm en p tA tB M1 N1 K (pA i) (pB i) (pC i))
              (GA_CUDA_EXIT_ON_ERROR (cuda_record en (A1 i) CUDA_WAIT_READ)
              (GA_CUDA_EXIT_ON_ERROR (cuda_record en (B1 i) CUDA_WAIT_READ)
              (GA_CUDA_EXIT_ON_ERROR (cuda_record en (C i) CUDA_WAIT_ALL) k)))))))
            (\<lambda>s. (Ret GA_NO_ERROR, cuda_exit s)) (cuda_enter (init_state pm)))))"
    by (rule per_item_loop_all) simp_all
  note b = big_iff [OF ok]
  show ?thesis
    using ok by (cases "order = cb_c") (simp_all add: gemmBatch_def Let_def b small big)
qed

lemma gemmBatch_succeeds:
  assumes ok: "\<not> sizes_overflow M N K lda ldb ldc" and en: "succeeds en"
  shows "gemmBatch p en order transA transB M N K A offA lda B offB ldb C offC ldc batchCount
           (init_state pm) =
     (let sw = (order = cb_c);
          M1 = (if sw then N else M); N1 = (if sw then M else N);
          A1 = (if sw then B else A); B1 = (if sw then A else B);
          tA = (if sw then transB else transA); tB = (if sw then transA else transB);
          pA = (\<lambda>i. if sw then BufPtr (B i) (esize p * offB i) else BufPtr (A i) (esize p * offA i));
          pB = (\<lambda>i. if sw then BufPtr (A i) (esize p * offA i) else BufPtr (B i) (esize p * offB i));
          pC = (\<lambda>i. BufPtr (C i) (esize p * offC i));
          idx = [0..<unat batchCount];
          h = 1 + 3 * unat batchCount
      in (Ret GA_NO_ERROR, \<lparr>trace =
        (if 650 ^ 3 < unat M * unat N * unat K then
           [Enter] @ concat (map (\<lambda>i.
              [Wait (A1 i) CUDA_WAIT_READ, Wait (B1 i) CUDA_WAIT_READ, Wait (C i) CUDA_WAIT_ALL,
               Gemm p tA tB M1 N1 K (pA i) (pB i) (pC i),
               Record (A1 i) CUDA_WAIT_READ, Record (B1 i) CUDA_WAIT_READ,
               Record (C i) CUDA_WAIT_ALL]) idx) @ [Exit]
         else
           [Enter] @ concat (map (\<lambda>i.
              [Wait (A1 i) CUDA_WAIT_READ, Wait (B1 i) CUDA_WAIT_READ, Wait (C i) CUDA_WAIT_ALL]) idx)
           @ [Alloc h (8 * batchCount * 3) [],
              Write h (map pA idx @ map pB idx @ map pC idx),
              GemmBatched p tA tB M1 N1 K (ScratchPtr h 0) (ScratchPtr h (batchCount * 8))
                (ScratchPtr h (batchCount * 8 * 2)) batchCount,
              Release h]
           @ concat (map (\<lambda>i. [Record (A1 i) CUDA_WAIT_READ, Record (B1 i) CUDA_WAIT_READ,
               Record (C i) CUDA_WAIT_ALL]) idx) @ [Exit]), pmode = pm\<rparr>))"
proof -
  note b = big_iff [OF ok]
  have len: "\<And>X Y Z ma mb mc. length (concat (map (\<lambda>i. [Wait (X i) ma, Wait (Y i) mb, Wait (Z i) mc])
      [0..<unat batchCount])) = 3 * unat batchCount"
    by (simp add: length_concat3)
  show ?thesis
    using ok
    by (cases "order = cb_c")
       (simp_all add: gemmBatch_def Let_def b gemmBatch_big_ok [OF en] wait_loop_ok [OF en]
          gemmBatch_batched_ok [OF en] len log_def cuda_enter_def emit_def init_state_def
          step_no_def)
qed


lemma concat_map_Nil: "concat (map (\<lambda>i. []) idx) = []"
  by (induction idx) simp_all

subsection \<open>Sizes in the collectives\<close>

lemma scast_nonneg:
  fixes c :: c_int
  assumes "0 \<le> sint c"
  shows "unat (scast c :: size_t) = nat (sint c)"
proof -
  have b: "sint c < 2 ^ 31" using sint_lt [of c] by simp
  have "uint (scast c :: size_t) = take_bit LENGTH(64) (sint c)"
    by (simp only: scast_eq uint_word_of_int_eq)
  also have "\<dots> = sint c"
  proof (rule take_bit_int_eq_self)
    show "0 \<le> sint c" by (rule assms)
    show "sint c < 2 ^ LENGTH(64)" using b by simp
  qed
  finally show ?thesis by (simp only: unat_eq_nat_uint)
qed

lemma sint_mult_exact:
  fixes a b :: c_int
  assumes "0 \<le> sint a * sint b" "sint a * sint b < 2 ^ 31"
  shows "sint (a * b) = sint a * sint b"
proof -
  have "a * b = word_of_int (sint a * sint b)" by simp
  then have "sint (a * b) = signed_take_bit (LENGTH(32) - 1) (sint a * sint b)"
    by (simp only: sint_sbintrunc')
  also have "\<dots> = sint a * sint b"
    by (rule signed_take_bit_int_eq_self) (use assms in simp_all)
  finally show ?thesis .
qed

lemma overrun_detected:
  fixes c :: c_int and e off size :: size_t
  assumes le: "off \<le> size" and c0: "0 \<le> sint c" and e: "unat e < 2 ^ 32"
    and over: "int (unat size) - int (unat off) < sint c * int (unat e)"
  shows "size - off < scast c * e"
proof -
  have sub: "unat (size - off) = unat size - unat off" using le by (rule unat_sub)
  have sc: "unat (scast c :: size_t) = nat (sint c)" using c0 by (rule scast_nonneg)
  have "sint c < 2 ^ 31" using sint_lt [of c] by simp
  then have n: "nat (sint c) < 2 ^ 31" using c0 by simp
  have "nat (sint c) * unat e < 2 ^ 31 * 2 ^ 32"
    using mult_strict_mono [OF n e] by simp
  then have "unat (scast c :: size_t) * unat e < 2 ^ LENGTH(64)" by (simp add: sc)
  then have "unat (scast c * e) = unat (scast c :: size_t) * unat e"
    by (rule unat_mult_lem [THEN iffD1])
  then have prod: "unat (scast c * e) = nat (sint c) * unat e" by (simp add: sc)
  have "unat off \<le> unat size" using le by (simp add: word_le_nat_alt)
  then have "int (unat size - unat off) < int (nat (sint c) * unat e)"
    using over c0 by (simp add: of_nat_diff)
  then have "unat size - unat off < nat (sint c) * unat e" by linarith
  then show ?thesis by (simp add: word_less_nat_alt sub prod)
qed

lemma overruns_positive:
  assumes "overruns cfg b off n tc"
  shows "0 < n"
proof -
  from assms have le: "off \<le> sz b"
    and lt: "int (unat (sz b)) - int (unat off) < n * int (unat (gpuarray_get_elsize cfg tc))"
    by (simp_all add: overruns_def)
  from le have "unat off \<le> unat (sz b)" by (simp only: word_le_nat_alt)
  then have "int (unat off) \<le> int (unat (sz b))" by (simp only: of_nat_le_iff)
  then have "0 \<le> int (unat (sz b)) - int (unat off)" by linarith
  with lt have "0 < n * int (unat (gpuarray_get_elsize cfg tc))" by linarith
  then show ?thesis by (simp add: zero_less_mult_iff)
qed

lemma overruns_detected:
  fixes c :: c_int
  assumes w: "unat (gpuarray_get_elsize cfg tc) < 2 ^ 32"
    and o: "overruns cfg b off (sint c) tc"
  shows "sz b - off < scast c * gpuarray_get_elsize cfg tc"
proof -
  from overruns_positive [OF o] have "0 \<le> sint c" by simp
  moreover from o have "off \<le> sz b"
    "int (unat (sz b)) - int (unat off) < sint c * int (unat (gpuarray_get_elsize cfg tc))"
    by (simp_all add: overruns_def)
  ultimately show ?thesis using w by (intro overrun_detected)
qed

lemma check_src:
  assumes "sz src - offsrc < scast count * gpuarray_get_elsize cfg tc"
  shows "fst (check_restrictions cfg src offsrc dest offdest count tc opc comm wd wo)
           = Ret GA_VALUE_ERROR"
  using assms by (simp add: check_restrictions_def Let_def)

lemma check_dest:
  assumes "sz d - offdest < scast count * gpuarray_get_elsize cfg tc"
  shows "fst (check_restrictions cfg src offsrc (Some d) offdest count tc opc comm wd wo)
           = Ret GA_VALUE_ERROR"
  using assms by (simp add: check_restrictions_def Let_def)

lemma check_ndebug:
  assumes "ndebug cfg"
  shows "fst (check_restrictions cfg src offsrc dest offdest count tc opc comm wd wo)
           = Ret GA_VALUE_ERROR \<or>
         fst (check_restrictions cfg src offsrc dest offdest count tc opc comm wd wo)
           = Ret GA_NO_ERROR"
  using assms by (simp add: check_restrictions_def Let_def)

lemma all_reduce_rejects:
  assumes "fst (check_restrictions cfg src offsrc (Some dest) offdest count tc opc comm True True)
      = Ret GA_VALUE_ERROR"
  shows "rejected (all_reduce cfg en src offsrc dest offdest count tc opc comm (init_state pm))"
proof -
  obtain r dt op where "check_restrictions cfg src offsrc (Some dest) offdest count tc opc comm
      True True = (r, dt, op)" by (rule prod_cases3)
  with assms show ?thesis
    by (simp add: all_reduce_def rejected_def GA_CHECK_def init_state_def)
qed

lemma broadcast_rejects:
  assumes "fst (check_restrictions cfg array offset None 0 count tc 0 comm True False)
      = Ret GA_VALUE_ERROR"
  shows "rejected (broadcast cfg en array offset count tc rootr comm (init_state pm))"
proof -
  obtain r dt op where "check_restrictions cfg array offset None 0 count tc 0 comm True False
      = (r, dt, op)" by (rule prod_cases3)
  with assms show ?thesis
    by (simp add: broadcast_def rejected_def GA_CHECK_def init_state_def)
qed

lemma reduce_rejects:
  assumes "nccl_ret en 0 = ncclSuccess"
    and "fst (check_restrictions cfg src offsrc (if int_ret en 0 = rootr then dest else None)
           offdest count tc opc comm True True) = Ret GA_VALUE_ERROR"
  shows "rejected (reduce cfg en src offsrc dest offdest count tc opc rootr comm (init_state pm))"
proof -
  obtain r dt op where "check_restrictions cfg src offsrc
      (if int_ret en 0 = rootr then dest else None) offdest count tc opc comm True True
      = (r, dt, op)" by (rule prod_cases3)
  with assms show ?thesis
    by (simp add: reduce_def rejected_def GA_CHECK_def init_state_def get_rank_def step_no_def
      Let_def emit_def)
qed

lemma reduce_scatter_src_rejects:
  assumes "nccl_ret en 0 = ncclSuccess"
    and "fst (check_restrictions cfg src offsrc None 0 (count * int_ret en 0) tc opc comm
           True True) = Ret GA_VALUE_ERROR"
  shows "rejected (reduce_scatter cfg en src offsrc dest offdest count tc opc comm (init_state pm))"
proof -
  obtain r dt op where "check_restrictions cfg src offsrc None 0 (count * int_ret en 0) tc opc
      comm True True = (r, dt, op)" by (rule prod_cases3)
  with assms show ?thesis
    by (simp add: reduce_scatter_def rejected_def GA_CHECK_def init_state_def get_count_def
      step_no_def Let_def emit_def)
qed

lemma reduce_scatter_dest_rejects:
  assumes "nccl_ret en 0 = ncclSuccess" and "ndebug cfg"
    and "sz dest - offdest < scast count * gpuarray_get_elsize cfg tc"
  shows "rejected (reduce_scatter cfg en src offsrc dest offdest count tc opc comm (init_state pm))"
proof -
  obtain r dt op where "check_restrictions cfg src offsrc None 0 (count * int_ret en 0) tc opc
      comm True True = (r, dt, op)" by (rule prod_cases3)
  with assms check_ndebug [OF assms(2), of src offsrc None 0 "count * int_ret en 0" tc opc comm
      True True]
  show ?thesis
    by (auto simp: reduce_scatter_def rejected_def GA_CHECK_def init_state_def get_count_def
      step_no_def Let_def emit_def)
qed

lemma all_gather_src_rejects:
  assumes "fst (check_restrictions cfg src offsrc None 0 count tc 0 comm True False)
      = Ret GA_VALUE_ERROR"
  shows "rejected (all_gather cfg en src offsrc dest offdest count tc comm (init_state pm))"
proof -
  obtain r dt op where "check_restrictions cfg src offsrc None 0 count tc 0 comm True False
      = (r, dt, op)" by (rule prod_cases3)
  with assms show ?thesis
    by (simp add: all_gather_def rejected_def GA_CHECK_def init_state_def)
qed

lemma all_gather_dest_rejects:
  assumes "nccl_ret en 0 = ncclSuccess" and "ndebug cfg"
    and "sz dest - offdest < scast (int_ret en 0 * count) * gpuarray_get_elsize cfg tc"
  shows "rejected (all_gather cfg en src offsrc dest offdest count tc comm (init_state pm))"
proof -
  obtain r dt op where "check_restrictions cfg src offsrc None 0 count tc 0 comm True False
      = (r, dt, op)" by (rule prod_cases3)
  with assms check_ndebug [OF assms(2), of src offsrc None 0 count tc 0 comm True False]
  show ?thesis
    by (auto simp: all_gather_def rejected_def GA_CHECK_def init_state_def get_count_def
      step_no_def Let_def emit_def)
qed


lemma overruns_product:
  fixes a b :: c_int
  assumes w: "unat (gpuarray_get_elsize cfg tc) < 2 ^ 32"
    and r: "sint a * sint b < 2 ^ 31"
    and o: "overruns cfg d off (sint a * sint b) tc"
  shows "sz d - off < scast (a * b) * gpuarray_get_elsize cfg tc"
proof -
  from overruns_positive [OF o] have "0 \<le> sint a * sint b" by simp
  then have "sint (a * b) = sint a * sint b" using r by (rule sint_mult_exact)
  with o have "overruns cfg d off (sint (a * b)) tc" by simp
  with w show ?thesis by (rule overruns_detected)
qed

section \<open>Properties\<close>

subsection \<open>The gate after a failed scratch allocation\<close>

text \<open>
  C1.  The claim: once an operation has entered the critical section, every return
  path calls \<open>cuda_exit\<close> before returning, the failed allocation of an
  operand-pointer scratch buffer in the batched gemv/ger paths included.  The source
  does otherwise: \<open>sgemvBatch\<close> on one item, with every hazard wait succeeding and the
  first \<open>buffer_alloc\<close> returning \<open>NULL\<close>, returns the context's error code with the
  gate entered and never exited.
\<close>

theorem sgemvBatch_alloc_failure_keeps_gate:
  "(let r = sgemvBatch (all_ok\<lparr>alloc_ok := (\<lambda>n. n \<noteq> 4)\<rparr>) cb_fortran cb_no_trans 4 4 1
              (\<lambda>i. buf 0) (\<lambda>i. 0) 4 (\<lambda>i. buf 1) (\<lambda>i. 0) 1 1 (\<lambda>i. buf 2) (\<lambda>i. 0) 1 1 0 host0
    in fst r = Ret GA_MEMORY_ERROR \<and>
       trace (snd r) = [Enter, Wait (buf 0) CUDA_WAIT_READ, Wait (buf 1) CUDA_WAIT_READ,
                        Wait (buf 2) CUDA_WAIT_ALL, AllocFail 8] \<and>
       Exit \<notin> set (trace (snd r)))"
  by code_simp

subsection \<open>The kernel behind the double-precision batched rank-1 update\<close>

text \<open>
  C2.  The claim: a successful \<open>dgerBatch\<close> leaves in each \<open>A[i]\<close> the rank-1 update
  computed in double precision.  The source launches the single-precision kernel:
  on one 2 by 2 item \<open>dgerBatch\<close> succeeds and the only kernel it has launched is
  \<open>sgerBH_gen_small\<close>, whose arrays and scalar are \<open>float\<close>.
\<close>

theorem dgerBatch_launches_single_precision_kernel:
  "(let r = dgerBatch all_ok cb_fortran 2 2 1 (\<lambda>i. buf 1) (\<lambda>i. 0) 1 (\<lambda>i. buf 2) (\<lambda>i. 0) 1
              (\<lambda>i. buf 0) (\<lambda>i. 0) 2 1 0 host0
    in fst r = Ret GA_NO_ERROR \<and>
       launched (trace (snd r)) = [sgerBH_gen_small] \<and>
       map kernel_precision (launched (trace (snd r))) = [Single])"
  by code_simp

subsection \<open>Hazard modes of the batched rank-1 update\<close>

text \<open>
  C3.  The claim: for every operand of every operation the mode recorded after the
  device call is the mode waited for before it, the accumulator \<open>A\<close> of the batched
  ger included.  In the source \<open>sgerBatch\<close> waits for \<open>A\<close> with \<open>CUDA_WAIT_ALL\<close>
  and for \<open>y\<close> with \<open>CUDA_WAIT_READ\<close>, and records \<open>A\<close> with \<open>CUDA_WAIT_READ\<close> and
  \<open>y\<close> with \<open>CUDA_WAIT_ALL\<close>.
\<close>

theorem sgerBatch_records_differ_from_waits:
  "(let r = sgerBatch all_ok cb_fortran 2 2 1 (\<lambda>i. buf 1) (\<lambda>i. 0) 1 (\<lambda>i. buf 2) (\<lambda>i. 0) 1
              (\<lambda>i. buf 0) (\<lambda>i. 0) 2 1 0 host0
    in fst r = Ret GA_NO_ERROR \<and>
       waits_of (trace (snd r)) =
         [(buf 0, CUDA_WAIT_ALL), (buf 1, CUDA_WAIT_READ), (buf 2, CUDA_WAIT_READ)] \<and>
       records_of (trace (snd r)) =
         [(buf 0, CUDA_WAIT_READ), (buf 1, CUDA_WAIT_READ), (buf 2, CUDA_WAIT_ALL)])"
  by code_simp

subsection \<open>Grid of the batched gemv\<close>

text \<open>The block shape is as described: 32 by \<open>min(batchCount, 16)\<close>, or 512 by 1.\<close>

lemma gemvBatch_grid_block:
  assumes "gemvBatch_grid M batchCount = Some (ls, gs)"
  shows "ls = (if M < 512 then [32, min batchCount 16] else [512, 1])"
  using assms by (auto simp: gemvBatch_grid_def Let_def min_def split: if_splits)

text \<open>
  C8.  The claim: the block is 32 by \<open>min(batchCount, 16)\<close> for \<open>M < 512\<close> and 512 by 1
  otherwise, and a clamped batch grid dimension stays at least 1.  With
  \<open>M = 2^25\<close> and one item the row-block count is 65536, the product reaches 65535
  and the batch grid dimension becomes \<open>65535 div 65536 = 0\<close>.
\<close>

theorem gemvBatch_grid_clamps_to_zero:
  "gemvBatch_grid 33554432 1 = Some ([512, 1], [65536, 0])"
  by code_simp

subsection \<open>Reduce on a participant that is not the root\<close>

text \<open>
  On a participant that is not the root the destination and its offset play no part
  in what \<open>reduce\<close> does, and with \<open>assert\<close> compiled out a successful call waits
  for and records the source only.
\<close>

lemma reduce_non_root_ignores_dest:
  assumes "int_ret en (step_no s) \<noteq> rootr"
  shows "reduce cfg en src offsrc dest offdest count tc opc rootr comm s =
         reduce cfg en src offsrc None 0 count tc opc rootr comm s"
  using assms by (simp add: reduce_def get_rank_def check_restrictions_def Let_def GA_CHECK_def)

lemma reduce_non_root_without_assert:
  assumes "ndebug cfg" and "succeeds en" and "int_ret en 0 \<noteq> rootr"
    and "fst (reduce cfg en src offsrc dest offdest count tc opc rootr comm (init_state pm))
           = Ret GA_NO_ERROR"
  shows "trace (snd (reduce cfg en src offsrc dest offdest count tc opc rootr comm
           (init_state pm))) =
         [CommUserRank, Enter, Wait src CUDA_WAIT_READ,
          NcclReduce (BufPtr src offsrc) NullPtr count (convert_data_type cfg tc)
            (convert_reduce_op opc) rootr,
          Record src CUDA_WAIT_READ, Exit]"
  using assms
  by (simp add: reduce_def get_rank_def check_restrictions_def Let_def GA_CHECK_def
      succeeds_def init_state_def step_no_def emit_def GA_CUDA_EXIT_ON_ERROR_def
      NCCL_EXIT_ON_ERROR_def cuda_wait_def cuda_record_def cuda_enter_def cuda_exit_def
      split: if_splits)

text \<open>
  C9.  The claim: a participant whose rank differs from the root may pass a null
  destination, and its destination is neither validated nor hazard-tracked.  With
  \<open>assert\<close> active, \<open>reduce\<close> on rank 1 with root 0 and a null destination passes the
  null pointer to \<open>check_restrictions\<close>, whose last \<open>assert\<close> reads \<open>dest->sz\<close>
  through it.
\<close>

theorem reduce_non_root_reads_null_dest:
  "reduce debug_build (all_ok\<lparr>int_ret := (\<lambda>n. 1)\<rparr>) (buf 0) 0 None 0 4 GA_FLOAT GA_SUM 0
      \<lparr>comm_ctx = 0\<rparr> host0
   = (Crash NullDeref, \<lparr>trace = [CommUserRank], pmode = CUBLAS_POINTER_MODE_HOST\<rparr>)"
  by code_simp


subsection \<open>Scratch buffers of the batched paths\<close>

text \<open>
  C6.  In the pointer-batched gemm and in the batched gemv and ger, whatever the
  collaborators answer, every scratch buffer the call has allocated is released
  exactly once, after its allocation and before the call returns, and nothing else is
  released: on success, after a failed pointer-table write, after a failed vendor
  batched call, after a failed kernel launch, after a failed later allocation and
  after a failed hazard record.
\<close>

theorem scratch_released_on_every_path:
  "scratch_released (trace (snd (sgemmBatch en order transA transB M N K A offA lda B offB ldb
      C offC ldc batchCount (init_state pm)))) \<and>
   scratch_released (trace (snd (dgemmBatch en order transA transB M N K A offA lda B offB ldb
      C offC ldc batchCount (init_state pm)))) \<and>
   scratch_released (trace (snd (sgemvBatch en order transA M N alpha A offA lda x offX incX
      beta y offY incY batchCount flags (init_state pm)))) \<and>
   scratch_released (trace (snd (dgemvBatch en order transA M N alpha A offA lda x offX incX
      beta y offY incY batchCount flags (init_state pm)))) \<and>
   scratch_released (trace (snd (sgerBatch en order M N alpha x offX incX y offY incY A offA lda
      batchCount flags (init_state pm)))) \<and>
   scratch_released (trace (snd (dgerBatch en order M N alpha x offX incX y offY incY A offA lda
      batchCount flags (init_state pm))))"
  unfolding sgemmBatch_def dgemmBatch_def sgemvBatch_def dgemvBatch_def sgerBatch_def
    dgerBatch_def
  by (intro conjI gemmBatch_scratch gemvBatch_scratch gerBatch_scratch)

subsection \<open>Scale factors of the batched gemv and ger\<close>

text \<open>
  C4, as claimed: every batched gemv and every batched ger call on the custom kernel
  path rejects scale factors other than \<open>alpha = 1\<close> and \<open>beta = 1\<close> as unsupported
  before any device work.  The batched ger does not: \<open>sgerBatch\<close> with \<open>alpha = 2\<close>
  succeeds and has launched its kernel with the scalar argument 2.
\<close>

theorem sgerBatch_accepts_alpha_two:
  "(let r = sgerBatch all_ok cb_fortran 2 2 2 (\<lambda>i. buf 1) (\<lambda>i. 0) 1 (\<lambda>i. buf 2) (\<lambda>i. 0) 1
              (\<lambda>i. buf 0) (\<lambda>i. 0) 2 1 0 host0
    in fst r = Ret GA_NO_ERROR \<and>
       KernelCall sgerBH_gen_small [1, 1, 1] [2, 2, 1]
         [ArgBuf 5, ArgSize 1, ArgBuf 6, ArgSize 1, ArgScalar 2, ArgBuf 4, ArgSize 2,
          ArgSize 1, ArgSize 2, ArgSize 2] \<in> set (trace (snd r)))"
  by code_simp

text \<open>
  C4, amended: every batched gemv call (\<open>sgemvBatch\<close>, \<open>dgemvBatch\<close>) with
  \<open>flags = 0\<close> and scale factors other than \<open>alpha = 1\<close> and \<open>beta = 1\<close> returns the
  unsupported-parameters error with the state untouched: the gate is not entered and
  nothing is issued.
\<close>

theorem gemvBatch_rejects_other_scale_factors:
  assumes "flags = 0" and "alpha \<noteq> 1 \<or> beta \<noteq> 1"
  shows "sgemvBatch en order transA M N alpha A offA lda x offX incX beta y offY incY
            batchCount flags s = (Ret GA_UNSUPPORTED_ERROR, s) \<and>
         dgemvBatch en order transA M N alpha A offA lda x offX incX beta y offY incY
            batchCount flags s = (Ret GA_UNSUPPORTED_ERROR, s)"
  using assms by (auto simp: sgemvBatch_def dgemvBatch_def gemvBatch_def)

theorem gemvBatch_rejects_other_scale_factors_witness:
  "sgemvBatch all_ok cb_fortran cb_no_trans 4 4 2 (\<lambda>i. buf 0) (\<lambda>i. 0) 4 (\<lambda>i. buf 1) (\<lambda>i. 0) 1
      1 (\<lambda>i. buf 2) (\<lambda>i. 0) 1 1 0 host0 = (Ret GA_UNSUPPORTED_ERROR, host0) \<and>
   dgemvBatch all_ok cb_fortran cb_no_trans 4 4 2 (\<lambda>i. buf 0) (\<lambda>i. 0) 4 (\<lambda>i. buf 1) (\<lambda>i. 0) 1
      1 (\<lambda>i. buf 2) (\<lambda>i. 0) 1 1 0 host0 = (Ret GA_UNSUPPORTED_ERROR, host0)"
  by (rule gemvBatch_rejects_other_scale_factors) simp_all

subsection \<open>Pointer mode around the dot product\<close>

lemma dot_success:
  assumes "fst (dot p en N X offX incX Y offY incY Z offZ s) = Ret GA_NO_ERROR"
  shows "pmode (snd (dot p en N X offX incX Y offY incY Z offZ s)) = pmode s \<and>
         trace (snd (dot p en N X offX incX Y offY incY Z offZ s)) =
           trace s @ [Enter, Wait X CUDA_WAIT_READ, Wait Y CUDA_WAIT_READ,
             Wait Z CUDA_WAIT_WRITE, GetPointerMode,
             SetPointerMode CUBLAS_POINTER_MODE_DEVICE,
             Dot p N (BufPtr X (esize p * offX)) (BufPtr Y (esize p * offY))
               (BufPtr Z (esize p * offZ)),
             SetPointerMode (pmode s),
             Record X CUDA_WAIT_READ, Record Y CUDA_WAIT_READ, Record Z CUDA_WAIT_WRITE,
             Exit]"
  using assms
  by (auto simp: dot_def GA_CUDA_EXIT_ON_ERROR_def CUBLAS_EXIT_ON_ERROR_def cuda_wait_def
      cuda_record_def cuda_enter_def cuda_exit_def cublasGetPointerMode_def
      cublasSetPointerMode_def cublasDot_def Let_def error_cublas_def
      split: if_splits)

text \<open>
  C10.  A dot product (\<open>sdot\<close>, \<open>ddot\<close>) that returns success leaves the pointer mode
  of the handle as it found it.  Its calls are, in this order: the three hazard waits,
  the read of the mode, the switch to device-pointer mode, the vendor dot writing
  through the device address of \<open>Z\<close>, the switch back to the mode read, and only then
  the three hazard records.
\<close>

theorem dot_restores_pointer_mode:
  assumes "f = sdot \<and> p = Single \<or> f = ddot \<and> p = Double"
    and "fst (f en N X offX incX Y offY incY Z offZ s) = Ret GA_NO_ERROR"
  shows "pmode (snd (f en N X offX incX Y offY incY Z offZ s)) = pmode s \<and>
         trace (snd (f en N X offX incX Y offY incY Z offZ s)) =
           trace s @ [Enter, Wait X CUDA_WAIT_READ, Wait Y CUDA_WAIT_READ,
             Wait Z CUDA_WAIT_WRITE, GetPointerMode,
             SetPointerMode CUBLAS_POINTER_MODE_DEVICE,
             Dot p N (BufPtr X (esize p * offX)) (BufPtr Y (esize p * offY))
               (BufPtr Z (esize p * offZ)),
             SetPointerMode (pmode s),
             Record X CUDA_WAIT_READ, Record Y CUDA_WAIT_READ, Record Z CUDA_WAIT_WRITE,
             Exit]"
proof -
  from assms(1) have "f = dot p" by (auto simp: sdot_def ddot_def)
  with assms(2) show ?thesis using dot_success [of p en N X offX incX Y offY incY Z offZ s]
    by simp
qed

theorem dot_restores_pointer_mode_witness:
  "fst (ddot all_ok 3 (buf 0) 0 1 (buf 1) 0 1 (buf 2) 0 (init_state CUBLAS_POINTER_MODE_DEVICE))
     = Ret GA_NO_ERROR \<and>
   pmode (snd (ddot all_ok 3 (buf 0) 0 1 (buf 1) 0 1 (buf 2) 0
     (init_state CUBLAS_POINTER_MODE_DEVICE))) = CUBLAS_POINTER_MODE_DEVICE \<and>
   trace (snd (ddot all_ok 3 (buf 0) 0 1 (buf 1) 0 1 (buf 2) 0
     (init_state CUBLAS_POINTER_MODE_DEVICE))) =
     [Enter, Wait (buf 0) CUDA_WAIT_READ, Wait (buf 1) CUDA_WAIT_READ,
      Wait (buf 2) CUDA_WAIT_WRITE, GetPointerMode,
      SetPointerMode CUBLAS_POINTER_MODE_DEVICE,
      Dot Double 3 (BufPtr (buf 0) 0) (BufPtr (buf 1) 0) (BufPtr (buf 2) 0),
      SetPointerMode CUBLAS_POINTER_MODE_DEVICE,
      Record (buf 0) CUDA_WAIT_READ, Record (buf 1) CUDA_WAIT_READ,
      Record (buf 2) CUDA_WAIT_WRITE, Exit]"
proof -
  have ok: "fst (ddot all_ok 3 (buf 0) 0 1 (buf 1) 0 1 (buf 2) 0
      (init_state CUBLAS_POINTER_MODE_DEVICE)) = Ret GA_NO_ERROR"
    by code_simp
  from dot_restores_pointer_mode [of ddot Double, OF _ ok] ok show ?thesis
    by (simp add: init_state_def)
qed


subsection \<open>Dispatch of the pointer-batched gemm\<close>

text \<open>
  C7, as claimed: every pointer-batched gemm call issues one vendor gemm per item
  exactly when \<open>M * N * K\<close> exceeds \<open>650^3\<close>, and otherwise a single vendor batched
  call.  Not every call dispatches: the sizes are first tested against \<open>INT_MAX\<close>,
  and a call that fails the test returns \<open>GA_XLARGE_ERROR\<close> before the gate and
  issues nothing.  With \<open>M = N = 50000\<close>, \<open>K = 1\<close> the volume exceeds \<open>650^3\<close> and no
  per-item gemm is issued; with \<open>M = N = K = 1\<close> and \<open>lda = INT_MAX\<close> the volume is
  below \<open>650^3\<close> and no batched call is issued.
\<close>

theorem sgemmBatch_overflowing_sizes:
  "(650 :: nat) ^ 3 < 50000 * 50000 * 1 \<and>
   sgemmBatch all_ok cb_fortran cb_no_trans cb_no_trans 50000 50000 1 (\<lambda>i. buf 0) (\<lambda>i. 0) 50000
          (\<lambda>i. buf 1) (\<lambda>i. 0) 1 (\<lambda>i. buf 2) (\<lambda>i. 0) 50000 2 host0
     = (Ret GA_XLARGE_ERROR, host0) \<and>
   (1 :: nat) * 1 * 1 \<le> 650 ^ 3 \<and>
   sgemmBatch all_ok cb_fortran cb_no_trans cb_no_trans 1 1 1 (\<lambda>i. buf 0) (\<lambda>i. 0) 2147483647
          (\<lambda>i. buf 1) (\<lambda>i. 0) 1 (\<lambda>i. buf 2) (\<lambda>i. 0) 1 2 host0
     = (Ret GA_XLARGE_ERROR, host0) \<and>
   succeeds all_ok \<and>
   gemm_calls (trace host0) = [] \<and> batched_calls (trace host0) = []"
  by (simp add: sgemmBatch_def gemmBatch_def sizes_overflow_def LARGE_VAL_def host0_def
      init_state_def succeeds_def all_ok_def)

text \<open>
  C7, amended.  A pointer-batched gemm call (\<open>sgemmBatch\<close>, \<open>dgemmBatch\<close>) whose
  sizes fail the overflow test (one of \<open>M\<close>, \<open>N\<close>, \<open>K\<close>, \<open>lda\<close>, \<open>ldb\<close>, \<open>ldc\<close>,
  \<open>M * N\<close>, \<open>M * K\<close>, \<open>K * N\<close> is at least \<open>INT_MAX\<close>) returns \<open>GA_XLARGE_ERROR\<close>
  and calls no collaborator.  A call whose sizes pass the test takes the per-item
  branch exactly when \<open>M * N * K\<close>, as a product of natural numbers, exceeds
  \<open>650^3\<close>; the batch count plays no part in the choice.  Whatever the collaborators
  answer, the per-item branch never allocates, writes or releases scratch memory and
  never issues the vendor batched call, and the other branch never issues a per-item
  vendor gemm.  When every collaborator call succeeds the call returns
  \<open>GA_NO_ERROR\<close> and its calls are exactly these, in this order.  Per-item branch:
  enter the gate; for each item in turn, wait on A (read), B (read), C (all), one
  vendor gemm on that item's operands, record A (read), B (read), C (all); leave the
  gate.  Other branch: enter the gate; the three waits of every item; allocate one
  scratch buffer of \<open>24 * batchCount\<close> bytes; write it once with the A pointers, then
  the B pointers, then the C pointers; one vendor batched call whose pointer arrays
  are the scratch buffer at byte offsets \<open>0\<close>, \<open>8 * batchCount\<close> and
  \<open>16 * batchCount\<close>; release the scratch buffer; the three records of every item;
  leave the gate.  A, B, \<open>M\<close>, \<open>N\<close> and the transposition flags are as they stand
  after the row-major swap.
\<close>

theorem gemmBatch_dispatch:
  assumes f: "f = sgemmBatch \<and> p = Single \<or> f = dgemmBatch \<and> p = Double"
  shows "let r = f en order transA transB M N K A offA lda B offB ldb C offC ldc batchCount
                   (init_state pm);
             tr = trace (snd r);
             big = (650 ^ 3 < unat M * unat N * unat K);
             sw = (order = cb_c);
             M1 = (if sw then N else M); N1 = (if sw then M else N);
             A1 = (if sw then B else A); B1 = (if sw then A else B);
             tA = (if sw then transB else transA); tB = (if sw then transA else transB);
             pA = (\<lambda>i. if sw then BufPtr (B i) (esize p * offB i)
                        else BufPtr (A i) (esize p * offA i));
             pB = (\<lambda>i. if sw then BufPtr (A i) (esize p * offA i)
                        else BufPtr (B i) (esize p * offB i));
             pC = (\<lambda>i. BufPtr (C i) (esize p * offC i));
             idx = [0..<unat batchCount];
             h = 1 + 3 * unat batchCount
         in (sizes_overflow M N K lda ldb ldc \<longrightarrow>
               r = (Ret GA_XLARGE_ERROR, init_state pm)) \<and>
            (\<not> sizes_overflow M N K lda ldb ldc \<longrightarrow>
            (big \<longrightarrow> list_all per_item_only tr) \<and>
            (\<not> big \<longrightarrow> list_all not_gemm tr) \<and>
            (succeeds en \<longrightarrow>
               fst r = Ret GA_NO_ERROR \<and>
               (big \<longrightarrow>
                  tr = [Enter] @ concat (map (\<lambda>i.
                         [Wait (A1 i) CUDA_WAIT_READ, Wait (B1 i) CUDA_WAIT_READ,
                          Wait (C i) CUDA_WAIT_ALL,
                          Gemm p tA tB M1 N1 K (pA i) (pB i) (pC i),
                          Record (A1 i) CUDA_WAIT_READ, Record (B1 i) CUDA_WAIT_READ,
                          Record (C i) CUDA_WAIT_ALL]) idx) @ [Exit] \<and>
                  gemm_calls tr = map (\<lambda>i. (pA i, pB i, pC i)) idx \<and>
                  batched_calls tr = []) \<and>
               (\<not> big \<longrightarrow>
                  tr = [Enter] @ concat (map (\<lambda>i.
                         [Wait (A1 i) CUDA_WAIT_READ, Wait (B1 i) CUDA_WAIT_READ,
                          Wait (C i) CUDA_WAIT_ALL]) idx)
                       @ [Alloc h (8 * batchCount * 3) [],
                          Write h (map pA idx @ map pB idx @ map pC idx),
                          GemmBatched p tA tB M1 N1 K (ScratchPtr h 0)
                            (ScratchPtr h (batchCount * 8))
                            (ScratchPtr h (batchCount * 8 * 2)) batchCount,
                          Release h]
                       @ concat (map (\<lambda>i.
                         [Record (A1 i) CUDA_WAIT_READ, Record (B1 i) CUDA_WAIT_READ,
                          Record (C i) CUDA_WAIT_ALL]) idx) @ [Exit] \<and>
                  gemm_calls tr = [] \<and>
                  batched_calls tr =
                    [(ScratchPtr h 0, ScratchPtr h (batchCount * 8),
                      ScratchPtr h (batchCount * 8 * 2), batchCount)])))"
proof -
  from f have fp: "f = gemmBatch p" by (auto simp: sgemmBatch_def dgemmBatch_def)
  show ?thesis
  proof (cases "sizes_overflow M N K lda ldb ldc")
    case True
    then show ?thesis unfolding fp by (simp add: gemmBatch_def Let_def)
  next
    case ok: False
    note br = gemmBatch_branches [OF ok, of p en order transA transB A offA B offB C offC
        batchCount pm]
    have su: "succeeds en \<Longrightarrow> ?thesis"
      using br ok unfolding fp
      by (simp add: gemmBatch_succeeds [OF ok] Let_def gemm_calls_concat batched_calls_concat
          concat_map_singleton concat_map_Nil)
    show ?thesis
    proof (cases "succeeds en")
      case True
      then show ?thesis by (rule su)
    next
      case False
      then show ?thesis using br ok unfolding fp by (simp add: Let_def)
    qed
  qed
qed

theorem gemmBatch_dispatch_witness:
  "\<not> sizes_overflow 8 8 8 8 8 8 \<and> succeeds all_ok \<and>
   sgemmBatch all_ok cb_fortran cb_no_trans cb_no_trans 8 8 8 (\<lambda>i. buf 0) (\<lambda>i. 0) 8
          (\<lambda>i. buf 1) (\<lambda>i. 0) 8 (\<lambda>i. buf 2) (\<lambda>i. 0) 8 2 host0
     = (Ret GA_NO_ERROR,
        \<lparr>trace = [Enter,
           Wait (buf 0) CUDA_WAIT_READ, Wait (buf 1) CUDA_WAIT_READ, Wait (buf 2) CUDA_WAIT_ALL,
           Wait (buf 0) CUDA_WAIT_READ, Wait (buf 1) CUDA_WAIT_READ, Wait (buf 2) CUDA_WAIT_ALL,
           Alloc 7 48 [],
           Write 7 [BufPtr (buf 0) 0, BufPtr (buf 0) 0, BufPtr (buf 1) 0, BufPtr (buf 1) 0,
                    BufPtr (buf 2) 0, BufPtr (buf 2) 0],
           GemmBatched Single cb_no_trans cb_no_trans 8 8 8 (ScratchPtr 7 0) (ScratchPtr 7 16)
             (ScratchPtr 7 32) 2,
           Release 7,
           Record (buf 0) CUDA_WAIT_READ, Record (buf 1) CUDA_WAIT_READ,
           Record (buf 2) CUDA_WAIT_ALL,
           Record (buf 0) CUDA_WAIT_READ, Record (buf 1) CUDA_WAIT_READ,
           Record (buf 2) CUDA_WAIT_ALL,
           Exit],
         pmode = CUBLAS_POINTER_MODE_HOST\<rparr>)"
proof -
  have ok: "\<not> sizes_overflow 8 8 8 8 8 8"
    by (simp add: sizes_overflow_def LARGE_VAL_def)
  have su: "succeeds all_ok"
    by (simp add: succeeds_def all_ok_def)
  have u: "[0..<(2::nat)] = [0, Suc 0]"
    by (simp add: numeral_2_eq_2)
  have pm: "pmode (snd (sgemmBatch all_ok cb_fortran cb_no_trans cb_no_trans 8 8 8
          (\<lambda>i. buf 0) (\<lambda>i. 0) 8 (\<lambda>i. buf 1) (\<lambda>i. 0) 8 (\<lambda>i. buf 2) (\<lambda>i. 0) 8 2 host0))
      = CUBLAS_POINTER_MODE_HOST"
    by code_simp
  from gemmBatch_dispatch [where f = sgemmBatch and p = Single and M = 8 and N = 8 and K = 8
      and lda = 8 and ldb = 8 and ldc = 8 and en = all_ok and order = cb_fortran
      and transA = cb_no_trans and transB = cb_no_trans
      and A = "\<lambda>i. buf 0" and offA = "\<lambda>i. 0" and B = "\<lambda>i. buf 1" and offB = "\<lambda>i. 0"
      and C = "\<lambda>i. buf 2" and offC = "\<lambda>i. 0" and batchCount = 2
      and pm = CUBLAS_POINTER_MODE_HOST] ok su
  have "fst (sgemmBatch all_ok cb_fortran cb_no_trans cb_no_trans 8 8 8
          (\<lambda>i. buf 0) (\<lambda>i. 0) 8 (\<lambda>i. buf 1) (\<lambda>i. 0) 8 (\<lambda>i. buf 2) (\<lambda>i. 0) 8 2 host0)
        = Ret GA_NO_ERROR \<and>
      trace (snd (sgemmBatch all_ok cb_fortran cb_no_trans cb_no_trans 8 8 8
          (\<lambda>i. buf 0) (\<lambda>i. 0) 8 (\<lambda>i. buf 1) (\<lambda>i. 0) 8 (\<lambda>i. buf 2) (\<lambda>i. 0) 8 2 host0))
        = [Enter,
           Wait (buf 0) CUDA_WAIT_READ, Wait (buf 1) CUDA_WAIT_READ, Wait (buf 2) CUDA_WAIT_ALL,
           Wait (buf 0) CUDA_WAIT_READ, Wait (buf 1) CUDA_WAIT_READ, Wait (buf 2) CUDA_WAIT_ALL,
           Alloc 7 48 [],
           Write 7 [BufPtr (buf 0) 0, BufPtr (buf 0) 0, BufPtr (buf 1) 0, BufPtr (buf 1) 0,
                    BufPtr (buf 2) 0, BufPtr (buf 2) 0],
           GemmBatched Single cb_no_trans cb_no_trans 8 8 8 (ScratchPtr 7 0) (ScratchPtr 7 16)
             (ScratchPtr 7 32) 2,
           Release 7,
           Record (buf 0) CUDA_WAIT_READ, Record (buf 1) CUDA_WAIT_READ,
           Record (buf 2) CUDA_WAIT_ALL,
           Record (buf 0) CUDA_WAIT_READ, Record (buf 1) CUDA_WAIT_READ,
           Record (buf 2) CUDA_WAIT_ALL,
           Exit]"
    by (simp add: Let_def host0_def u)
  with pm ok su show ?thesis
    by (cases "sgemmBatch all_ok cb_fortran cb_no_trans cb_no_trans 8 8 8
          (\<lambda>i. buf 0) (\<lambda>i. 0) 8 (\<lambda>i. buf 1) (\<lambda>i. 0) 8 (\<lambda>i. buf 2) (\<lambda>i. 0) 8 2 host0")
       (auto intro: cuda_state.equality)
qed


subsection \<open>Operands that overrun their buffer in the collectives\<close>

text \<open>
  C5, as claimed: a collective whose element count times the element width exceeds
  \<open>size - offset\<close> fails with the out-of-bounds kind before the critical section,
  also when the offset itself is larger than the size.  It does not in that case:
  \<open>all_reduce\<close> on a 64-byte source at offset 65 with 4 elements of 4 bytes passes
  the unsigned comparison (\<open>64 - 65\<close> wraps); with \<open>assert\<close> compiled out it enters
  the critical section and succeeds, with \<open>assert\<close> active it stops at the assertion
  on the offset.  In neither build does it return an error.
\<close>

theorem all_reduce_offset_beyond_size:
  "fst (all_reduce release_build all_ok (buf 0) 65 (buf 1) 0 4 GA_FLOAT GA_SUM \<lparr>comm_ctx = 0\<rparr>
          host0) = Ret GA_NO_ERROR \<and>
   Enter \<in> set (trace (snd (all_reduce release_build all_ok (buf 0) 65 (buf 1) 0 4 GA_FLOAT
          GA_SUM \<lparr>comm_ctx = 0\<rparr> host0))) \<and>
   fst (all_reduce debug_build all_ok (buf 0) 65 (buf 1) 0 4 GA_FLOAT GA_SUM \<lparr>comm_ctx = 0\<rparr>
          host0) = Crash AssertFail"
  by code_simp

text \<open>
  Two conditions under which an overrun is not answered with an error.  With
  \<open>assert\<close> active, \<open>reduce_scatter\<close> (and likewise \<open>all_gather\<close>) stops in its
  first call of \<open>check_restrictions\<close>, which it hands a null destination, before the
  destination is compared.  And the element count of the source of \<open>reduce_scatter\<close>
  is the \<open>int\<close> product \<open>count * ndev\<close>: with \<open>count = 2^30\<close> on four devices it
  wraps to zero and a 64-byte source passes.
\<close>

lemma reduce_scatter_dest_with_assert:
  "reduce_scatter debug_build (all_ok\<lparr>int_ret := (\<lambda>n. 1)\<rparr>) (buf 0) 0 (buf 1) 60
          4 GA_FLOAT GA_SUM \<lparr>comm_ctx = 0\<rparr> host0
     = (Crash NullDeref, \<lparr>trace = [CommCount], pmode = CUBLAS_POINTER_MODE_HOST\<rparr>)"
  by code_simp

lemma reduce_scatter_product_wraps:
  "fst (reduce_scatter release_build (all_ok\<lparr>int_ret := (\<lambda>n. 4)\<rparr>) (buf 0) 0
          \<lparr>buf_id = 1, ctx = 0, sz = 8589934592\<rparr> 0
          1073741824 GA_FLOAT GA_SUM \<lparr>comm_ctx = 0\<rparr> host0) = Ret GA_NO_ERROR"
  by (simp add: reduce_scatter_def get_count_def check_restrictions_def GA_CHECK_def
      release_build_def all_ok_def buf_def host0_def init_state_def step_no_def emit_def
      convert_reduce_op_def GA_SUM_def Let_def GA_CUDA_EXIT_ON_ERROR_def NCCL_EXIT_ON_ERROR_def
      cuda_wait_def cuda_record_def cuda_enter_def cuda_exit_def)

text \<open>
  C5, amended.  Let the element type's byte width be below \<open>2^32\<close>, and say that
  \<open>n\<close> elements overrun a buffer at an offset when the offset does not exceed the
  buffer's size and \<open>n\<close> times the width exceeds \<open>size - offset\<close>.  Then the call
  returns \<open>GA_VALUE_ERROR\<close> without entering the critical section, enqueueing device
  work or touching hazard state, in each of these cases:
  \<^item> \<open>count\<close> elements overrun the source of \<open>all_reduce\<close>, \<open>broadcast\<close> or
    \<open>all_gather\<close>;
  \<^item> \<open>count\<close> elements overrun the source of \<open>reduce\<close> and the rank query succeeds;
  \<^item> \<open>count\<close> elements overrun the destination of \<open>all_reduce\<close>;
  \<^item> \<open>count\<close> elements overrun the destination of \<open>reduce\<close>, the rank query succeeds
    and the caller is the root (elsewhere the destination is not an operand);
  \<^item> \<open>count\<close> elements overrun the destination of \<open>reduce_scatter\<close>, the count query
    succeeds and \<open>assert\<close> is compiled out (\<open>NDEBUG\<close>);
  \<^item> \<open>count * ndev\<close> elements overrun the source of \<open>reduce_scatter\<close>, the count
    query succeeds and \<open>count * ndev\<close> is below \<open>2^31\<close> (it does not overflow
    \<open>int\<close>);
  \<^item> \<open>ndev * count\<close> elements overrun the destination of \<open>all_gather\<close>, the count
    query succeeds, \<open>assert\<close> is compiled out and \<open>ndev * count\<close> is below \<open>2^31\<close>.

  An offset larger than the size is left to an \<open>assert\<close>, not reported as an error.
\<close>

theorem out_of_bounds_rejected:
  assumes w: "unat (gpuarray_get_elsize cfg tc) < 2 ^ 32"
  shows
  "(overruns cfg src offsrc (sint count) tc \<longrightarrow>
      rejected (all_reduce cfg en src offsrc dest offdest count tc opc comm (init_state pm)) \<and>
      rejected (broadcast cfg en src offsrc count tc rootr comm (init_state pm)) \<and>
      rejected (all_gather cfg en src offsrc dest offdest count tc comm (init_state pm)) \<and>
      (nccl_ret en 0 = ncclSuccess \<longrightarrow>
         rejected (reduce cfg en src offsrc rdest offdest count tc opc rootr comm
                     (init_state pm)))) \<and>
   (overruns cfg dest offdest (sint count) tc \<longrightarrow>
      rejected (all_reduce cfg en src offsrc dest offdest count tc opc comm (init_state pm)) \<and>
      (nccl_ret en 0 = ncclSuccess \<and> int_ret en 0 = rootr \<longrightarrow>
         rejected (reduce cfg en src offsrc (Some dest) offdest count tc opc rootr comm
                     (init_state pm))) \<and>
      (nccl_ret en 0 = ncclSuccess \<and> ndebug cfg \<longrightarrow>
         rejected (reduce_scatter cfg en src offsrc dest offdest count tc opc comm
                     (init_state pm)))) \<and>
   (nccl_ret en 0 = ncclSuccess \<and> sint count * sint (int_ret en 0) < 2 ^ 31 \<and>
    overruns cfg src offsrc (sint count * sint (int_ret en 0)) tc \<longrightarrow>
      rejected (reduce_scatter cfg en src offsrc dest offdest count tc opc comm
                  (init_state pm))) \<and>
   (nccl_ret en 0 = ncclSuccess \<and> ndebug cfg \<and>
    sint (int_ret en 0) * sint count < 2 ^ 31 \<and>
    overruns cfg dest offdest (sint (int_ret en 0) * sint count) tc \<longrightarrow>
      rejected (all_gather cfg en src offsrc dest offdest count tc comm (init_state pm)))"
proof (intro conjI impI)
  assume o: "overruns cfg src offsrc (sint count) tc"
  note s = check_src [OF overruns_detected [OF w o]]
  show "rejected (all_reduce cfg en src offsrc dest offdest count tc opc comm (init_state pm))"
    by (rule all_reduce_rejects [OF s])
  show "rejected (broadcast cfg en src offsrc count tc rootr comm (init_state pm))"
    by (rule broadcast_rejects [OF s])
  show "rejected (all_gather cfg en src offsrc dest offdest count tc comm (init_state pm))"
    by (rule all_gather_src_rejects [OF s])
  assume "nccl_ret en 0 = ncclSuccess"
  then show "rejected (reduce cfg en src offsrc rdest offdest count tc opc rootr comm
      (init_state pm))"
    by (rule reduce_rejects [OF _ s])
next
  assume o: "overruns cfg dest offdest (sint count) tc"
  note d = overruns_detected [OF w o]
  show "rejected (all_reduce cfg en src offsrc dest offdest count tc opc comm (init_state pm))"
    by (rule all_reduce_rejects [OF check_dest [OF d]])
  {
    assume a: "nccl_ret en 0 = ncclSuccess \<and> int_ret en 0 = rootr"
    then have "fst (check_restrictions cfg src offsrc
        (if int_ret en 0 = rootr then Some dest else None) offdest count tc opc comm True True)
        = Ret GA_VALUE_ERROR"
      using check_dest [OF d] by simp
    with a show "rejected (reduce cfg en src offsrc (Some dest) offdest count tc opc rootr comm
        (init_state pm))"
      by (intro reduce_rejects) simp_all
  }
  assume "nccl_ret en 0 = ncclSuccess \<and> ndebug cfg"
  then show "rejected (reduce_scatter cfg en src offsrc dest offdest count tc opc comm
      (init_state pm))"
    using d by (intro reduce_scatter_dest_rejects) simp_all
next
  assume a: "nccl_ret en 0 = ncclSuccess \<and> sint count * sint (int_ret en 0) < 2 ^ 31 \<and>
    overruns cfg src offsrc (sint count * sint (int_ret en 0)) tc"
  then have "sz src - offsrc < scast (count * int_ret en 0) * gpuarray_get_elsize cfg tc"
    using w by (intro overruns_product) simp_all
  from a check_src [OF this]
  show "rejected (reduce_scatter cfg en src offsrc dest offdest count tc opc comm
      (init_state pm))"
    by (intro reduce_scatter_src_rejects) simp_all
next
  assume a: "nccl_ret en 0 = ncclSuccess \<and> ndebug cfg \<and>
    sint (int_ret en 0) * sint count < 2 ^ 31 \<and>
    overruns cfg dest offdest (sint (int_ret en 0) * sint count) tc"
  then have "sz dest - offdest < scast (int_ret en 0 * count) * gpuarray_get_elsize cfg tc"
    using w by (intro overruns_product) simp_all
  with a show "rejected (all_gather cfg en src offsrc dest offdest count tc comm
      (init_state pm))"
    by (intro all_gather_dest_rejects) simp_all
qed

theorem out_of_bounds_rejected_witness:
  "unat (gpuarray_get_elsize release_build GA_FLOAT) < 2 ^ 32 \<and>
   overruns release_build (buf 0) 60 4 GA_FLOAT \<and>
   rejected (all_reduce release_build (all_ok\<lparr>int_ret := (\<lambda>n. 1)\<rparr>) (buf 0) 60 (buf 1) 60 4
      GA_FLOAT GA_SUM \<lparr>comm_ctx = 0\<rparr> host0) \<and>
   rejected (broadcast release_build (all_ok\<lparr>int_ret := (\<lambda>n. 1)\<rparr>) (buf 0) 60 4 GA_FLOAT 1
      \<lparr>comm_ctx = 0\<rparr> host0) \<and>
   rejected (all_gather release_build (all_ok\<lparr>int_ret := (\<lambda>n. 1)\<rparr>) (buf 0) 60 (buf 1) 60 4
      GA_FLOAT \<lparr>comm_ctx = 0\<rparr> host0) \<and>
   rejected (reduce release_build (all_ok\<lparr>int_ret := (\<lambda>n. 1)\<rparr>) (buf 0) 60 (Some (buf 1)) 60 4
      GA_FLOAT GA_SUM 1 \<lparr>comm_ctx = 0\<rparr> host0) \<and>
   rejected (reduce_scatter release_build (all_ok\<lparr>int_ret := (\<lambda>n. 1)\<rparr>) (buf 0) 60 (buf 1) 60
      4 GA_FLOAT GA_SUM \<lparr>comm_ctx = 0\<rparr> host0)"
proof -
  have w: "unat (gpuarray_get_elsize release_build GA_FLOAT) < 2 ^ 32"
    by (simp add: release_build_def)
  have o: "overruns release_build (buf 0) 60 4 GA_FLOAT"
    by (simp add: overruns_def release_build_def buf_def)
  have n: "nccl_ret (all_ok\<lparr>int_ret := (\<lambda>n. 1)\<rparr>) 0 = ncclSuccess"
    by (simp add: all_ok_def)
  from out_of_bounds_rejected [OF w, of "buf 0" 60 4
      "all_ok\<lparr>int_ret := (\<lambda>n. 1)\<rparr>" "buf 1" 60 GA_SUM "\<lparr>comm_ctx = 0\<rparr>"
      CUBLAS_POINTER_MODE_HOST 1 "Some (buf 1)"] w o n
  show ?thesis by (simp add: host0_def)
qed

end
